theory Spec2Isabelle
  imports Complex_Main "HOL-Library.List_Lexorder" "HOL-Library.Char_ord"
    "HOL-Library.Monad_Syntax"
begin

section \<open>The JavaScript runtime the server relies on\<close>

text \<open>
  The handlers of \<^verbatim>\<open>server.js\<close> lean on three things that are not part of the
  repository: the \<^verbatim>\<open>Date\<close> object of the language, the document mapper (Mongoose)
  and the external collaborators (mail transport, payment gateway, HMAC). They are
  written out here as far as the handlers observe them.

  A valid \<^verbatim>\<open>Date\<close> is its time value, the milliseconds since the epoch, an
  integer; \<^verbatim>\<open>Invalid Date\<close> (time value NaN) is \<open>None\<close>. The calendar follows
  ECMA-262 (Day, DaysInYear, DayFromYear, YearFromTime, MonthFromTime, DateFromTime,
  MakeDay, MakeDate). Local time is UTC plus a fixed offset of the host.
\<close>

type_synonym instant = int

definition msPerDay :: int where
  "msPerDay = 86400000"

definition Day :: "instant \<Rightarrow> int" where
  "Day t = t div msPerDay"

definition leap :: "int \<Rightarrow> bool" where
  "leap y = (y mod 4 = 0 \<and> (y mod 400 = 0 \<or> y mod 100 \<noteq> 0))"

definition DaysInYear :: "int \<Rightarrow> int" where
  "DaysInYear y = (if leap y then 366 else 365)"

definition DayFromYear :: "int \<Rightarrow> int" where
  "DayFromYear y =
     365 * (y - 1970) + (y - 1969) div 4 - (y - 1901) div 100 + (y - 1601) div 400"

lemma div_step:
  fixes y k c :: int
  assumes "0 < k" "k dvd c"
  shows "(y - c) div k = (y - (c + 1)) div k + (if y mod k = 0 then 1 else 0)"
proof -
  obtain q where c: "c = k * q" using assms(2) by (auto simp: dvd_def)
  define r where "r = y mod k"
  define p where "p = y div k"
  have y: "y = p * k + r" by (simp add: p_def r_def)
  have r: "0 \<le> r" "r < k" using assms(1) by (simp_all add: r_def)
  have "y - c = (p - q) * k + r" by (simp add: y c algebra_simps)
  then have "(y - c) div k = ((p - q) * k + r) div k" by (simp only:)
  also have "\<dots> = p - q" using r by (simp add: div_pos_pos_trivial)
  finally have 1: "(y - c) div k = p - q" .
  show ?thesis
  proof (cases "r = 0")
    case True
    have "y - (c + 1) = (p - q - 1) * k + (k - 1)" by (simp add: y c True algebra_simps)
    then have "(y - (c + 1)) div k = ((p - q - 1) * k + (k - 1)) div k" by (simp only:)
    also have "\<dots> = p - q - 1" using assms(1) by (simp add: div_pos_pos_trivial)
    finally show ?thesis using 1 True by (simp add: r_def)
  next
    case False
    have "y - (c + 1) = (p - q) * k + (r - 1)" by (simp add: y c algebra_simps)
    then have "(y - (c + 1)) div k = ((p - q) * k + (r - 1)) div k" by (simp only:)
    also have "\<dots> = p - q" using r False by (simp add: div_pos_pos_trivial)
    finally show ?thesis using 1 False by (simp add: r_def)
  qed
qed

lemma DayFromYear_step: "DayFromYear (y + 1) = DayFromYear y + DaysInYear y"
proof -
  define A B C where "A = (y - 1969) div 4" and "B = (y - 1901) div 100"
    and "C = (y - 1601) div 400"
  define P Q R where "P \<longleftrightarrow> y mod 4 = 0" and "Q \<longleftrightarrow> y mod 100 = 0" and "R \<longleftrightarrow> y mod 400 = 0"
  have a: "(y + 1 - 1969) div 4 = A + (if P then 1 else 0)"
    using div_step [of 4 1968 y] by (simp add: A_def P_def)
  have b: "(y + 1 - 1901) div 100 = B + (if Q then 1 else 0)"
    using div_step [of 100 1900 y] by (simp add: B_def Q_def)
  have c: "(y + 1 - 1601) div 400 = C + (if R then 1 else 0)"
    using div_step [of 400 1600 y] by (simp add: C_def R_def)
  have "R \<Longrightarrow> Q"
    unfolding R_def Q_def using dvd_trans [of 100 400 y] by (simp add: mod_eq_0_iff_dvd)
  moreover have "Q \<Longrightarrow> P"
    unfolding P_def Q_def using dvd_trans [of 4 100 y] by (simp add: mod_eq_0_iff_dvd)
  moreover have "DayFromYear (y + 1) =
      365 * (y + 1 - 1970) + (A + (if P then 1 else 0)) - (B + (if Q then 1 else 0)) +
      (C + (if R then 1 else 0))"
    unfolding DayFromYear_def a b c ..
  moreover have "DayFromYear y = 365 * (y - 1970) + A - B + C"
    unfolding DayFromYear_def A_def B_def C_def ..
  moreover have "DaysInYear y = (if P \<and> (R \<or> \<not> Q) then 366 else 365)"
    unfolding DaysInYear_def leap_def P_def Q_def R_def by simp
  ultimately show ?thesis by (cases P; cases Q; cases R; simp)
qed

lemma DayFromYear_less: "DayFromYear y < DayFromYear (y + 1)"
  unfolding DayFromYear_step DaysInYear_def by simp

lemma DayFromYear_pred: "DayFromYear (y - 1) < DayFromYear y"
  using DayFromYear_less [of "y - 1"] by simp

text \<open>
  YearFromTime is the largest year whose first day is not after the given day. It is
  found by walking down from an estimate until the year starts on or before the day,
  then up while the next year does too.
\<close>

function year_down :: "int \<Rightarrow> int \<Rightarrow> int" where
  "year_down d y = (if d < DayFromYear y then year_down d (y - 1) else y)"
  by pat_completeness auto
termination
proof (relation "measure (\<lambda>(d, y). nat (DayFromYear y - d))")
  show "wf (measure (\<lambda>(d, y). nat (DayFromYear y - d)))"
    by simp
next
  fix d y :: int
  assume "d < DayFromYear y"
  then show "((d, y - 1), (d, y)) \<in> measure (\<lambda>(d, y). nat (DayFromYear y - d))"
    using DayFromYear_pred [of y] by simp
qed

function year_up :: "int \<Rightarrow> int \<Rightarrow> int" where
  "year_up d y = (if DayFromYear (y + 1) \<le> d then year_up d (y + 1) else y)"
  by pat_completeness auto
termination
proof (relation "measure (\<lambda>(d, y). nat (d + 1 - DayFromYear (y + 1)))")
  show "wf (measure (\<lambda>(d, y). nat (d + 1 - DayFromYear (y + 1))))"
    by simp
next
  fix d y :: int
  assume "DayFromYear (y + 1) \<le> d"
  then show "((d, y + 1), (d, y)) \<in> measure (\<lambda>(d, y). nat (d + 1 - DayFromYear (y + 1)))"
    using DayFromYear_less [of "y + 1"] by simp
qed

declare year_down.simps [simp del] year_up.simps [simp del]

definition YearFromDay :: "int \<Rightarrow> int" where
  "YearFromDay d = year_up d (year_down d (1970 + d div 365))"

definition DayWithinYear :: "int \<Rightarrow> int" where
  "DayWithinYear d = d - DayFromYear (YearFromDay d)"

text \<open>The day of the year on which month \<open>m\<close> (0 = January) starts.\<close>

definition month_start :: "bool \<Rightarrow> int \<Rightarrow> int" where
  "month_start lp m =
     (if m \<le> 0 then 0
      else if m = 1 then 31
      else (if lp then 1 else 0) +
        (if m = 2 then 59 else if m = 3 then 90 else if m = 4 then 120
         else if m = 5 then 151 else if m = 6 then 181 else if m = 7 then 212
         else if m = 8 then 243 else if m = 9 then 273 else if m = 10 then 304
         else if m = 11 then 334 else 365))"

definition MonthFromDay :: "int \<Rightarrow> int" where
  "MonthFromDay d =
     (let lp = leap (YearFromDay d); w = DayWithinYear d in
      if w < month_start lp 1 then 0 else if w < month_start lp 2 then 1
      else if w < month_start lp 3 then 2 else if w < month_start lp 4 then 3
      else if w < month_start lp 5 then 4 else if w < month_start lp 6 then 5
      else if w < month_start lp 7 then 6 else if w < month_start lp 8 then 7
      else if w < month_start lp 9 then 8 else if w < month_start lp 10 then 9
      else if w < month_start lp 11 then 10 else 11)"

definition DateFromDay :: "int \<Rightarrow> int" where
  "DateFromDay d =
     DayWithinYear d - month_start (leap (YearFromDay d)) (MonthFromDay d) + 1"

definition DaysInMonth :: "int \<Rightarrow> int \<Rightarrow> int" where
  "DaysInMonth y m = month_start (leap y) (m + 1) - month_start (leap y) m"

text \<open>MakeDay for a month in 0..11 and a day of the month, and MakeDate.\<close>

definition MakeDay :: "int \<Rightarrow> int \<Rightarrow> int \<Rightarrow> int" where
  "MakeDay y m dt = DayFromYear y + month_start (leap y) m + dt - 1"

definition MakeDate :: "int \<Rightarrow> int \<Rightarrow> instant" where
  "MakeDate day time = day * msPerDay + time"

text \<open>TimeClip: a time value beyond 8.64e15 ms of the epoch is NaN.\<close>

definition TimeClip :: "int \<Rightarrow> instant option" where
  "TimeClip t = (if 8640000000000000 < \<bar>t\<bar> then None else Some t)"

subsection \<open>Decimal digits\<close>

definition is_digit :: "char \<Rightarrow> bool" where
  "is_digit c = (CHR ''0'' \<le> c \<and> c \<le> CHR ''9'')"

definition digit_val :: "char \<Rightarrow> int" where
  "digit_val c = int (of_char c) - 48"

definition digits_val :: "string \<Rightarrow> int" where
  "digits_val s = foldl (\<lambda>a c. 10 * a + digit_val c) 0 s"

definition digit_char :: "nat \<Rightarrow> char" where
  "digit_char n = ''0123456789'' ! (n mod 10)"

function show_nat :: "nat \<Rightarrow> string" where
  "show_nat n = (if n < 10 then [digit_char n] else show_nat (n div 10) @ [digit_char n])"
  by pat_completeness auto
termination
  by (relation "measure id") auto

declare show_nat.simps [simp del]

text \<open>Number to string, as a template literal or \<^verbatim>\<open>String(n)\<close> prints an integer.\<close>

definition show_int :: "int \<Rightarrow> string" where
  "show_int i = (if i < 0 then CHR ''-'' # show_nat (nat (- i)) else show_nat (nat i))"

text \<open>\<^verbatim>\<open>s.padStart(2, "0")\<close>.\<close>

definition padStart2 :: "string \<Rightarrow> string" where
  "padStart2 s = replicate (2 - length s) CHR ''0'' @ s"

subsection \<open>The host and the Date constructor\<close>

text \<open>
  What the host fixes: the offset of local time from UTC in minutes (no daylight
  saving), the parser for date strings outside the two ISO forms spelled out below
  (implementation-defined in ECMA-262), the conversion of a string to a number
  (\<open>None\<close> is NaN), the product of a number with 100 in floating point, which
  strings the mapper casts to an ObjectId, the webhook secret of the environment
  (absent when the variable is unset) and HMAC-SHA256 with hex digest.
\<close>

record host =
  tz_minutes :: int
  legacy_parse :: "string \<Rightarrow> instant option"
  string_to_number :: "string \<Rightarrow> rat option"
  times_100 :: "rat \<Rightarrow> rat"
  objectIdOk :: "string \<Rightarrow> bool"
  webhook_secret :: "string option"
  hmac_sha256_hex :: "string \<Rightarrow> string \<Rightarrow> string"

text \<open>The test \<^verbatim>\<open>/^\d{4}-\d{2}-\d{2}$/\<close> of \<^verbatim>\<open>normalizeDateString\<close>.\<close>

definition canonical :: "string \<Rightarrow> bool" where
  "canonical s =
     (length s = 10 \<and> list_all is_digit (take 4 s) \<and> s ! 4 = CHR ''-'' \<and>
      list_all is_digit (take 2 (drop 5 s)) \<and> s ! 7 = CHR ''-'' \<and>
      list_all is_digit (drop 8 s))"

text \<open>
  The time part \<^verbatim>\<open>THH:mm:ss.sssZ\<close> of an ISO date-time in UTC, as milliseconds
  within the day; \<open>None\<close> when the text is not of that form or a field is out of range.
\<close>

definition iso_time :: "string \<Rightarrow> int option" where
  "iso_time s =
     (if length s = 14 \<and> s ! 0 = CHR ''T'' \<and> list_all is_digit (take 2 (drop 1 s)) \<and>
         s ! 3 = CHR '':'' \<and> list_all is_digit (take 2 (drop 4 s)) \<and>
         s ! 6 = CHR '':'' \<and> list_all is_digit (take 2 (drop 7 s)) \<and>
         s ! 9 = CHR ''.'' \<and> list_all is_digit (take 3 (drop 10 s)) \<and> s ! 13 = CHR ''Z''
      then
        (let h = digits_val (take 2 (drop 1 s)); m = digits_val (take 2 (drop 4 s));
             sec = digits_val (take 2 (drop 7 s)); ms = digits_val (take 3 (drop 10 s))
         in if h \<le> 23 \<and> m \<le> 59 \<and> sec \<le> 59
            then Some (h * 3600000 + m * 60000 + sec * 1000 + ms) else None)
      else None)"

text \<open>The day number of a canonical text whose month and day exist in the calendar.\<close>

definition iso_day :: "string \<Rightarrow> int option" where
  "iso_day s =
     (if canonical s then
        (let y = digits_val (take 4 s); m = digits_val (take 2 (drop 5 s));
             d = digits_val (drop 8 s)
         in if 1 \<le> m \<and> m \<le> 12 \<and> 1 \<le> d \<and> d \<le> DaysInMonth y (m - 1)
            then Some (MakeDay y (m - 1) d) else None)
      else None)"

text \<open>
  \<^verbatim>\<open>new Date(string)\<close>: the date-only form \<^verbatim>\<open>YYYY-MM-DD\<close> is UTC midnight of that
  day, the form \<^verbatim>\<open>YYYY-MM-DDTHH:mm:ss.sssZ\<close> is that UTC instant. Every other text,
  and a text of these forms with a field out of range, is left to the host's parser.
\<close>

definition Date_parse :: "host \<Rightarrow> string \<Rightarrow> instant option" where
  "Date_parse h s =
     (case iso_day (take 10 s) of
        None \<Rightarrow> legacy_parse h s
      | Some day \<Rightarrow>
          if length s = 10 then Some (MakeDate day 0)
          else (case iso_time (drop 10 s) of
                  None \<Rightarrow> legacy_parse h s
                | Some tm \<Rightarrow> Some (MakeDate day tm)))"

text \<open>
  The values a date reaches the server as: nothing or another falsy value, a string, a
  number of milliseconds, or a Date object (valid, as the mapper hands them out).
\<close>

datatype jsdate = Absent | Text string | Millis int | DateObj instant

fun falsy :: "jsdate \<Rightarrow> bool" where
  "falsy Absent = True"
| "falsy (Text s) = (s = [])"
| "falsy (Millis n) = (n = 0)"
| "falsy (DateObj t) = False"

fun new_Date :: "host \<Rightarrow> jsdate \<Rightarrow> instant option" where
  "new_Date h Absent = None"
| "new_Date h (Text s) = Date_parse h s"
| "new_Date h (Millis n) = TimeClip n"
| "new_Date h (DateObj t) = Some t"

definition LocalTime :: "host \<Rightarrow> instant \<Rightarrow> int" where
  "LocalTime h t = t + tz_minutes h * 60000"

definition getFullYear :: "host \<Rightarrow> instant \<Rightarrow> int" where
  "getFullYear h t = YearFromDay (Day (LocalTime h t))"

definition getMonth :: "host \<Rightarrow> instant \<Rightarrow> int" where
  "getMonth h t = MonthFromDay (Day (LocalTime h t))"

definition getDate :: "host \<Rightarrow> instant \<Rightarrow> int" where
  "getDate h t = DateFromDay (Day (LocalTime h t))"

section \<open>The date normalizer\<close>

text \<open>
  \<^verbatim>\<open>normalizeDateString(d)\<close> of \<^verbatim>\<open>server.js\<close>: null for a falsy input, the input
  itself for a string of the form YYYY-MM-DD, otherwise the local calendar day of
  \<^verbatim>\<open>new Date(d)\<close>, and null when that date is invalid.
\<close>

fun is_canonical_text :: "jsdate \<Rightarrow> bool" where
  "is_canonical_text (Text s) = canonical s"
| "is_canonical_text _ = False"

definition local_day_string :: "host \<Rightarrow> instant \<Rightarrow> string" where
  "local_day_string h dt =
     show_int (getFullYear h dt) @ ''-'' @ padStart2 (show_int (getMonth h dt + 1)) @
     ''-'' @ padStart2 (show_int (getDate h dt))"

definition normalizeDateString :: "host \<Rightarrow> jsdate \<Rightarrow> string option" where
  "normalizeDateString h d =
     (if falsy d then None
      else case d of
        Text s \<Rightarrow>
          if canonical s then Some s
          else (case new_Date h d of None \<Rightarrow> None | Some dt \<Rightarrow> Some (local_day_string h dt))
      | _ \<Rightarrow> (case new_Date h d of None \<Rightarrow> None | Some dt \<Rightarrow> Some (local_day_string h dt)))"

section \<open>The booking schema\<close>

text \<open>
  \<^verbatim>\<open>bookingSchema\<close> of \<^verbatim>\<open>models/booking.js\<close>. The \<^verbatim>\<open>_id\<close> of a document is
  kept as its hex string \<open>oid\<close>. The paths \<^verbatim>\<open>orderId\<close> and \<^verbatim>\<open>amount\<close>, which no
  booking handler reads or writes, and the automatic \<^verbatim>\<open>createdAt\<close> and
  \<^verbatim>\<open>updatedAt\<close>, which none reads, are left out, as is the text index.
\<close>

datatype status = Pending | Approved | Rejected

datatype paymentStatus = Unpaid | Paid | Failed | Refunded

record booking =
  oid :: string
  name :: string
  email :: string
  phone :: string
  package :: string
  guests :: int
  date :: instant
  time :: string
  specialRequests :: "string option"
  status :: status
  isPaid :: bool
  paymentStatus :: paymentStatus
  paymentId :: "string option"
  approvedAt :: "instant option"
  rejectedAt :: "instant option"
  paidAt :: "instant option"

text \<open>
  The body of \<^verbatim>\<open>POST /api/bookings\<close>, path by path of the schema: the handler hands
  \<^verbatim>\<open>req.body\<close> whole to \<^verbatim>\<open>new Booking(...)\<close>, so every path of the schema can be
  given by the caller, the lifecycle paths and the \<^verbatim>\<open>_id\<close> of the document
  included.
\<close>

record payload =
  p_id :: "string option"
  p_name :: "string option"
  p_email :: "string option"
  p_phone :: "string option"
  p_package :: "string option"
  p_guests :: "int option"
  p_date :: jsdate
  p_time :: "string option"
  p_specialRequests :: "string option"
  p_status :: "string option"
  p_isPaid :: "bool option"
  p_paymentStatus :: "string option"
  p_paymentId :: "string option"
  p_approvedAt :: jsdate
  p_rejectedAt :: jsdate
  p_paidAt :: jsdate

subsection \<open>Casting and validation by the mapper\<close>

definition is_space :: "char \<Rightarrow> bool" where
  "is_space c = (c \<in> set [CHR '' '', CHR 0x09, CHR 0x0A, CHR 0x0B, CHR 0x0C, CHR 0x0D])"

text \<open>\<^verbatim>\<open>trim: true\<close> of a string path (ASCII white space).\<close>

definition trim :: "string \<Rightarrow> string" where
  "trim s = rev (dropWhile is_space (rev (dropWhile is_space s)))"

text \<open>A required, trimmed string path: missing or empty after trimming fails validation.\<close>

definition required_trimmed :: "string option \<Rightarrow> string option" where
  "required_trimmed v =
     (case v of None \<Rightarrow> None | Some s \<Rightarrow> if trim s = [] then None else Some (trim s))"

definition required_string :: "string option \<Rightarrow> string option" where
  "required_string v = (case v of None \<Rightarrow> None | Some s \<Rightarrow> if s = [] then None else Some s)"

definition castStatus :: "string \<Rightarrow> status option" where
  "castStatus s =
     (if s = ''pending'' then Some Pending else if s = ''approved'' then Some Approved
      else if s = ''rejected'' then Some Rejected else None)"

definition castPaymentStatus :: "string \<Rightarrow> paymentStatus option" where
  "castPaymentStatus s =
     (if s = ''unpaid'' then Some Unpaid else if s = ''paid'' then Some Paid
      else if s = ''failed'' then Some Failed else if s = ''refunded'' then Some Refunded
      else None)"

text \<open>
  The mapper casts a value of a Date path through the Date constructor: null for a
  missing value or the empty string (\<open>Some None\<close>), a cast error for an invalid date
  (\<open>None\<close>).
\<close>

fun castDate :: "host \<Rightarrow> jsdate \<Rightarrow> instant option option" where
  "castDate h Absent = Some None"
| "castDate h (Text s) =
     (if s = [] then Some None
      else case Date_parse h s of None \<Rightarrow> None | Some t \<Rightarrow> Some (Some t))"
| "castDate h (Millis n) = (case TimeClip n of None \<Rightarrow> None | Some t \<Rightarrow> Some (Some t))"
| "castDate h (DateObj t) = Some (Some t)"

text \<open>
  The \<^verbatim>\<open>_id\<close> of a new document: the one the body names, otherwise the one the
  mapper generates.
\<close>

definition documentId :: "string \<Rightarrow> payload \<Rightarrow> string" where
  "documentId fresh body = (case p_id body of None \<Rightarrow> fresh | Some j \<Rightarrow> j)"

text \<open>
  \<^verbatim>\<open>new Booking(req.body)\<close> followed by validation: the document with the defaults of
  the schema filled in, or \<open>None\<close> for a validation error (a required path missing, a
  value outside an enum, guests below 1, a date or an \<^verbatim>\<open>_id\<close> that does not cast).
\<close>

definition newBooking :: "host \<Rightarrow> string \<Rightarrow> payload \<Rightarrow> booking option" where
  "newBooking h fresh body =
     do {
       i \<leftarrow> (case p_id body of None \<Rightarrow> Some fresh
              | Some j \<Rightarrow> if objectIdOk h j then Some j else None);
       n \<leftarrow> required_trimmed (p_name body);
       e \<leftarrow> required_trimmed (p_email body);
       ph \<leftarrow> required_trimmed (p_phone body);
       pk \<leftarrow> required_trimmed (p_package body);
       g \<leftarrow> p_guests body;
       dv \<leftarrow> castDate h (p_date body);
       d \<leftarrow> dv;
       tm \<leftarrow> required_string (p_time body);
       st \<leftarrow> (case p_status body of None \<Rightarrow> Some Pending | Some s \<Rightarrow> castStatus s);
       ps \<leftarrow> (case p_paymentStatus body of None \<Rightarrow> Some Unpaid
              | Some s \<Rightarrow> castPaymentStatus s);
       ap \<leftarrow> castDate h (p_approvedAt body);
       rj \<leftarrow> castDate h (p_rejectedAt body);
       pd \<leftarrow> castDate h (p_paidAt body);
       if g < 1 then None
       else Some \<lparr>oid = i, name = n, email = e, phone = ph, package = pk,
         guests = g, date = d, time = tm,
         specialRequests = map_option trim (p_specialRequests body),
         status = st,
         isPaid = (case p_isPaid body of None \<Rightarrow> False | Some b \<Rightarrow> b),
         paymentStatus = ps,
         paymentId = map_option trim (p_paymentId body),
         approvedAt = ap, rejectedAt = rj, paidAt = pd\<rparr>
     }"

text \<open>
  \<^verbatim>\<open>bookingSchema.pre("save")\<close>. The two flags are \<^verbatim>\<open>isModified("status")\<close> and
  \<^verbatim>\<open>isModified("paymentStatus")\<close>; \<open>now\<close> is \<^verbatim>\<open>new Date()\<close>.
\<close>

definition pre_save :: "instant \<Rightarrow> bool \<Rightarrow> bool \<Rightarrow> booking \<Rightarrow> booking" where
  "pre_save now modStatus modPayment b =
     (let b1 = (if modStatus \<and> status b = Approved then b\<lparr>approvedAt := Some now\<rparr> else b);
          b2 = (if modStatus \<and> status b1 = Rejected then b1\<lparr>rejectedAt := Some now\<rparr> else b1)
      in if modPayment \<and> paymentStatus b2 = Paid then b2\<lparr>paidAt := Some now\<rparr> else b2)"

section \<open>The booking store\<close>

text \<open>
  The collection is the list of its documents in insertion order. \<open>dateIndex\<close> says
  whether the unique index on \<^verbatim>\<open>date\<close> that the server asks for after connecting
  exists (the request is best effort: a failure is logged and ignored). The unique
  index on (email, date, time) is declared by the schema. \<open>adminEmail\<close> is the address
  of the first administrator, if there is one.
\<close>

record world =
  bookings :: "booking list"
  dateIndex :: bool
  adminEmail :: "string option"

text \<open>Would inserting \<open>b\<close> violate a unique index (error code 11000)?\<close>

definition duplicateKey :: "world \<Rightarrow> booking \<Rightarrow> bool" where
  "duplicateKey w b =
     (list_ex (\<lambda>x. oid x = oid b) (bookings w) \<or>
      list_ex (\<lambda>x. email x = email b \<and> date x = date b \<and> time x = time b) (bookings w) \<or>
      (dateIndex w \<and> list_ex (\<lambda>x. date x = date b) (bookings w)))"

text \<open>
  \<^verbatim>\<open>Booking.findById(id)\<close>: a string that does not cast to an ObjectId makes the query
  throw; otherwise the document with that \<^verbatim>\<open>_id\<close> or null.
\<close>

datatype 'a query = CastFailed | NoDocument | Found 'a

definition findById :: "host \<Rightarrow> world \<Rightarrow> string \<Rightarrow> booking query" where
  "findById h w i =
     (if objectIdOk h i
      then (case find (\<lambda>b. oid b = i) (bookings w) of None \<Rightarrow> NoDocument | Some b \<Rightarrow> Found b)
      else CastFailed)"

definition replaceDoc :: "booking \<Rightarrow> world \<Rightarrow> world" where
  "replaceDoc b w = w\<lparr>bookings := map (\<lambda>x. if oid x = oid b then b else x) (bookings w)\<rparr>"

definition deleteOne :: "string \<Rightarrow> world \<Rightarrow> world" where
  "deleteOne i w = w\<lparr>bookings := filter (\<lambda>x. oid x \<noteq> i) (bookings w)\<rparr>"

section \<open>Replies and side effects\<close>

datatype body =
    Message string
  | BookingCreated booking "string list"
  | BookingList "booking list"
  | BookingApproved booking string
  | BookingRejected string
  | StatusOk

type_synonym reply = "nat \<times> body"

text \<open>The request sent to the payment gateway by \<^verbatim>\<open>razorpay.paymentLink.create\<close>.\<close>

record linkRequest =
  paise :: rat
  customerName :: string
  customerEmail :: string
  customerContact :: string
  notesBookingId :: string

datatype effect =
    SendMail "string option" string
  | CreateLink linkRequest
  | Emit string
  | EmitPayment string bool string
  | Log string

text \<open>
  What the surroundings decide for one request: the clock, the \<^verbatim>\<open>_id\<close> the mapper
  generates for a new document, whether the mail transport delivers, and the short URL of the link
  the gateway creates (\<open>None\<close> when the gateway call fails).
\<close>

record ambient =
  now :: instant
  fresh_oid :: string
  mail_delivers :: bool
  gateway_link :: "string option"

section \<open>The handlers of \<^verbatim>\<open>server.js\<close>\<close>

text \<open>
  Each handler takes the host, what the surroundings decide, its request and the
  store, and gives the reply, the store afterwards and the side effects it asked for
  (mails handed to the transport, gateway calls, broadcasts, log lines). The
  administrator routes are modelled behind \<^verbatim>\<open>verifyAdmin\<close>, for a request that
  passed it.
\<close>

text \<open>
  The list of booked days of \<^verbatim>\<open>GET /api/bookings\<close>, also part of the reply to a
  submission: the normalized date of every booking, nulls dropped, sorted.
\<close>

definition bookedDates :: "host \<Rightarrow> world \<Rightarrow> string list" where
  "bookedDates h w =
     sort (List.map_filter (\<lambda>b. normalizeDateString h (DateObj (date b))) (bookings w))"

subsection \<open>\<^verbatim>\<open>POST /api/bookings\<close>\<close>

definition saveError :: "world \<Rightarrow> reply \<times> world \<times> effect list" where
  "saveError w = ((500, Message ''Error saving booking''), w, [Log ''Booking save error:''])"

text \<open>
  The two look-ups before the insert: a document whose date equals the normalized
  string (cast to a date by the mapper), or one whose date lies between
  \<open>startOfDay\<close> and \<open>endOfDay\<close>.
\<close>

definition existingByString :: "world \<Rightarrow> instant \<Rightarrow> bool" where
  "existingByString w asDate = list_ex (\<lambda>b. date b = asDate) (bookings w)"

definition existingByRange :: "world \<Rightarrow> instant \<Rightarrow> instant \<Rightarrow> bool" where
  "existingByRange w startOfDay endOfDay =
     list_ex (\<lambda>b. startOfDay \<le> date b \<and> date b \<le> endOfDay) (bookings w)"

text \<open>
  \<^verbatim>\<open>booking.save()\<close> of a new document and what follows it: validation, the
  pre-save hook, the insert (a duplicate key is error 11000, answered 409), the mail to
  the administrator inside its own try/catch, the refreshed list of booked days.
\<close>

definition createBooking :: "host \<Rightarrow> ambient \<Rightarrow> payload \<Rightarrow> world \<Rightarrow> reply \<times> world \<times> effect list" where
  "createBooking h a body w =
     (case newBooking h (fresh_oid a) body of
        None \<Rightarrow> saveError w
      | Some doc \<Rightarrow>
          (let booking = pre_save (now a) (p_status body \<noteq> None) (p_paymentStatus body \<noteq> None) doc
           in if duplicateKey w booking
              then ((409, Message ''Selected date is already booked (duplicate key)''), w, [])
              else (let w' = w\<lparr>bookings := bookings w @ [booking]\<rparr>
                    in ((201, BookingCreated booking (bookedDates h w')), w',
                        SendMail (adminEmail w) ''New Booking Request'' #
                        (if mail_delivers a then []
                         else [Log ''Failed sending booking notification email:''])))))"

definition submitBooking :: "host \<Rightarrow> ambient \<Rightarrow> payload \<Rightarrow> world \<Rightarrow> reply \<times> world \<times> effect list" where
  "submitBooking h a body w =
     (case normalizeDateString h (p_date body) of
        None \<Rightarrow>
          ((400, Message ''Invalid or missing date (expected YYYY-MM-DD or valid date)''), w, [])
      | Some normalized \<Rightarrow>
          (case (Date_parse h normalized,
                 Date_parse h (normalized @ ''T00:00:00.000Z''),
                 Date_parse h (normalized @ ''T23:59:59.999Z'')) of
             (Some asDate, Some startOfDay, Some endOfDay) \<Rightarrow>
               if existingByString w asDate \<or> existingByRange w startOfDay endOfDay
               then ((409, Message ''Selected date is already booked''), w, [])
               else createBooking h a body w
           | _ \<Rightarrow> saveError w))"

subsection \<open>\<^verbatim>\<open>GET /api/admin/bookings\<close>\<close>

definition listError :: "world \<Rightarrow> reply \<times> world \<times> effect list" where
  "listError w = ((500, Message ''Error fetching bookings''), w, [Log ''Error fetching bookings:''])"

text \<open>The bound of the \<^verbatim>\<open>deleteMany\<close>: \<^verbatim>\<open>new Date(todayNormalized + "T00:00:00.000Z")\<close>.\<close>

definition sweepBound :: "host \<Rightarrow> instant \<Rightarrow> instant option" where
  "sweepBound h today =
     (case normalizeDateString h (DateObj today) of
        None \<Rightarrow> None
      | Some todayNormalized \<Rightarrow> Date_parse h (todayNormalized @ ''T00:00:00.000Z''))"

definition adminBookings :: "host \<Rightarrow> ambient \<Rightarrow> world \<Rightarrow> reply \<times> world \<times> effect list" where
  "adminBookings h a w =
     (case sweepBound h (now a) of
        None \<Rightarrow> listError w
      | Some bound \<Rightarrow>
          (let kept = filter (\<lambda>b. bound \<le> date b) (bookings w);
               deletedCount = length (bookings w) - length kept
           in ((200, BookingList kept), w\<lparr>bookings := kept\<rparr>,
               if 0 < deletedCount
               then [Log ''past bookings removed'', Emit ''pastBookingsDeleted'']
               else [])))"

subsection \<open>\<^verbatim>\<open>POST /api/admin/bookings/:id/approve\<close>\<close>

text \<open>
  The \<^verbatim>\<open>amount\<close> of the body: missing (or null), a number, a string or a boolean.
  A number is the double the JSON parser produced, given as the rational it denotes;
  \<^verbatim>\<open>Number(amount) * 100\<close> is the host's rounded product \<open>times_100\<close>.
\<close>

datatype jsamount = NoAmount | NumAmount rat | TextAmount string | BoolAmount bool

fun amountFalsy :: "jsamount \<Rightarrow> bool" where
  "amountFalsy NoAmount = True"
| "amountFalsy (NumAmount r) = (r = 0)"
| "amountFalsy (TextAmount s) = (s = [])"
| "amountFalsy (BoolAmount b) = (b = False)"

fun Number :: "host \<Rightarrow> jsamount \<Rightarrow> rat option" where
  "Number h NoAmount = None"
| "Number h (NumAmount r) = Some r"
| "Number h (TextAmount s) = string_to_number h s"
| "Number h (BoolAmount b) = Some (if b then 1 else 0)"

text \<open>
  The guard \<^verbatim>\<open>!amount || isNaN(amount) || Number(amount) <= 0\<close>: \<open>None\<close> when it
  holds (the request is refused), otherwise the number.
\<close>

definition validAmount :: "host \<Rightarrow> jsamount \<Rightarrow> rat option" where
  "validAmount h amount =
     (if amountFalsy amount then None
      else case Number h amount of
        None \<Rightarrow> None
      | Some r \<Rightarrow> if r \<le> 0 then None else Some r)"

definition approveError :: "world \<Rightarrow> effect list \<Rightarrow> reply \<times> world \<times> effect list" where
  "approveError w sofar =
     ((500, Message ''Error approving booking''), w, sofar @ [Log ''Approve booking error:''])"

definition approveBooking :: "host \<Rightarrow> ambient \<Rightarrow> string \<Rightarrow> jsamount \<Rightarrow> world \<Rightarrow> reply \<times> world \<times> effect list" where
  "approveBooking h a i amount w =
     (if i = [] then ((400, Message ''Booking ID is required''), w, [])
      else case validAmount h amount of
        None \<Rightarrow> ((400, Message ''Valid amount is required''), w, [])
      | Some r \<Rightarrow>
          (case findById h w i of
             CastFailed \<Rightarrow> approveError w []
           | NoDocument \<Rightarrow> ((404, Message ''Booking not found''), w, [])
           | Found b \<Rightarrow>
               (let booking = pre_save (now a) (status b \<noteq> Approved) False (b\<lparr>status := Approved\<rparr>);
                    w' = replaceDoc booking w;
                    link = CreateLink \<lparr>paise = times_100 h r, customerName = name booking,
                      customerEmail = email booking, customerContact = phone booking,
                      notesBookingId = oid booking\<rparr>;
                    mail = SendMail (Some (email booking)) ''Booking Approved - Complete Payment''
                in case gateway_link a of
                     None \<Rightarrow> approveError w' [link]
                   | Some url \<Rightarrow>
                       if email booking = [] then ((200, BookingApproved booking url), w', [link])
                       else if mail_delivers a
                       then ((200, BookingApproved booking url), w', [link, mail])
                       else approveError w' [link, mail])))"

subsection \<open>\<^verbatim>\<open>POST /api/admin/bookings/:id/reject\<close>\<close>

definition rejectError :: "world \<Rightarrow> effect list \<Rightarrow> reply \<times> world \<times> effect list" where
  "rejectError w sofar =
     ((500, Message ''Error rejecting booking''), w, sofar @ [Log ''Reject booking error:''])"

definition rejectBooking :: "host \<Rightarrow> ambient \<Rightarrow> string \<Rightarrow> world \<Rightarrow> reply \<times> world \<times> effect list" where
  "rejectBooking h a i w =
     (case findById h w i of
        CastFailed \<Rightarrow> rejectError w []
      | NoDocument \<Rightarrow> ((404, Message ''Booking not found''), w, [])
      | Found booking \<Rightarrow>
          (let w' = deleteOne (oid booking) w;
               mail = SendMail (Some (email booking)) ''Booking Rejected''
           in if email booking = [] then ((200, BookingRejected i), w', [])
              else if mail_delivers a then ((200, BookingRejected i), w', [mail])
              else rejectError w' [mail]))"

subsection \<open>\<^verbatim>\<open>POST /api/razorpay/webhook\<close>\<close>

text \<open>
  The request as the handler reads it: the signature header, the text
  \<^verbatim>\<open>JSON.stringify(req.body)\<close> that is signed, the \<^verbatim>\<open>event\<close> of the body and
  \<^verbatim>\<open>payload.payment.entity\<close> (\<open>None\<close> when that path is missing from the body, so
  that reading it throws). A payment entity carries its id; \<^verbatim>\<open>notes.bookingId\<close> may
  be missing.
\<close>

record paymentEntity =
  payment_id :: string
  notes_bookingId :: "string option"

record webhookRequest =
  signature :: "string option"
  raw :: string
  event :: "string option"
  entity :: "paymentEntity option"

definition webhookError :: "world \<Rightarrow> reply \<times> world \<times> effect list" where
  "webhookError w = ((500, Message ''Webhook error''), w, [Log ''Webhook error:''])"

text \<open>
  \<^verbatim>\<open>Booking.findOneAndUpdate({_id: bookingId}, {isPaid: true, paymentId: payment.id},
  {new: true})\<close>. A missing \<^verbatim>\<open>bookingId\<close> matches no document; a string that does not
  cast to an ObjectId makes the query throw. An update through the query runs no
  \<^verbatim>\<open>save\<close> hook.
\<close>

definition findOneAndUpdate :: "host \<Rightarrow> world \<Rightarrow> string option \<Rightarrow> string \<Rightarrow> booking query" where
  "findOneAndUpdate h w bookingId pid =
     (case bookingId of
        None \<Rightarrow> NoDocument
      | Some i \<Rightarrow>
          (case findById h w i of
             CastFailed \<Rightarrow> CastFailed
           | NoDocument \<Rightarrow> NoDocument
           | Found b \<Rightarrow> Found (b\<lparr>isPaid := True, paymentId := Some (trim pid)\<rparr>)))"

definition razorpayWebhook :: "host \<Rightarrow> webhookRequest \<Rightarrow> world \<Rightarrow> reply \<times> world \<times> effect list" where
  "razorpayWebhook h rq w =
     (case webhook_secret h of
        None \<Rightarrow> webhookError w
      | Some secret \<Rightarrow>
          if signature rq = Some (hmac_sha256_hex h secret (raw rq))
          then
            (if event rq = Some ''payment.captured''
             then
               (case entity rq of
                  None \<Rightarrow> webhookError w
                | Some payment \<Rightarrow>
                    (case findOneAndUpdate h w (notes_bookingId payment) (payment_id payment) of
                       CastFailed \<Rightarrow> webhookError w
                     | NoDocument \<Rightarrow> ((200, StatusOk), w, [])
                     | Found booking \<Rightarrow>
                         ((200, StatusOk), replaceDoc booking w,
                          [Log ''marked as PAID'',
                           EmitPayment (oid booking) True (name booking)])))
             else ((200, StatusOk), w, []))
          else ((400, Message ''Invalid signature''), w, []))"

section \<open>Requests in sequence\<close>

text \<open>
  The server handles one request after the other on the store. \<open>perform\<close> is the
  handler of a request, \<open>after\<close> the store it leaves, \<open>run\<close> a sequence of requests.
\<close>

datatype request =
    Submit ambient payload
  | AdminList ambient
  | Approve ambient string jsamount
  | Reject ambient string
  | Webhook webhookRequest

fun perform :: "host \<Rightarrow> request \<Rightarrow> world \<Rightarrow> reply \<times> world \<times> effect list" where
  "perform h (Submit a body) w = submitBooking h a body w"
| "perform h (AdminList a) w = adminBookings h a w"
| "perform h (Approve a i amount) w = approveBooking h a i amount w"
| "perform h (Reject a i) w = rejectBooking h a i w"
| "perform h (Webhook rq) w = razorpayWebhook h rq w"

definition after :: "host \<Rightarrow> request \<Rightarrow> world \<Rightarrow> world" where
  "after h r w = fst (snd (perform h r w))"

fun run :: "host \<Rightarrow> request list \<Rightarrow> world \<Rightarrow> world" where
  "run h [] w = w"
| "run h (r # rs) w = run h rs (after h r w)"

section \<open>Facts about the store\<close>

lemma find_oid: "find (\<lambda>x. oid x = i) bs = Some b \<Longrightarrow> oid b = i"
proof (induction bs)
  case Nil
  then show ?case by simp
next
  case (Cons a bs)
  then show ?case by (cases "oid a = i") simp_all
qed

lemma find_replace:
  "find (\<lambda>x. oid x = i) bs = Some b \<Longrightarrow> oid c = i \<Longrightarrow>
   find (\<lambda>x. oid x = i) (map (\<lambda>x. if oid x = i then c else x) bs) = Some c"
proof (induction bs)
  case Nil
  then show ?case by simp
next
  case (Cons a bs)
  show ?case
  proof (cases "oid a = i")
    case True
    then show ?thesis using Cons.prems(2) by simp
  next
    case False
    then show ?thesis using Cons by simp
  qed
qed

lemma findById_Found_oid: "findById h w i = Found b \<Longrightarrow> oid b = i \<and> objectIdOk h i"
  by (auto simp: findById_def split: if_splits option.splits dest: find_oid)

lemma findById_replaceDoc:
  assumes "findById h w i = Found b" and "oid b' = i"
  shows "findById h (replaceDoc b' w) i = Found b'"
proof -
  have f: "find (\<lambda>x. oid x = i) (bookings w) = Some b" and ok: "objectIdOk h i"
    using assms(1) by (auto simp: findById_def split: if_splits option.splits)
  have "find (\<lambda>x. oid x = i) (map (\<lambda>x. if oid x = i then b' else x) (bookings w)) = Some b'"
    using f assms(2) by (rule find_replace)
  then show ?thesis
    using ok assms(2) by (simp add: findById_def replaceDoc_def)
qed

lemma find_filter_none: "find (\<lambda>x. oid x = i) (filter (\<lambda>x. oid x \<noteq> i) bs) = None"
  by (induction bs) simp_all

lemma findById_deleteOne: "objectIdOk h i \<Longrightarrow> findById h (deleteOne i w) i = NoDocument"
  by (simp add: findById_def deleteOne_def find_filter_none)

lemma pre_save_status: "status (pre_save t ms mp b) = status b"
  by (simp add: pre_save_def Let_def)


section \<open>Facts about the calendar\<close>

text \<open>
  The year of a day is the one the day lies in; the month and the day of the month are
  in range, and MakeDay takes them back to the day number.
\<close>

lemma year_down_le: "DayFromYear (year_down d y) \<le> d"
proof (induction d y rule: year_down.induct)
  case (1 d y)
  then show ?case by (subst year_down.simps) simp
qed

lemma year_up_bounds:
  "DayFromYear y \<le> d \<Longrightarrow>
   DayFromYear (year_up d y) \<le> d \<and> d < DayFromYear (year_up d y + 1)"
proof (induction d y rule: year_up.induct)
  case (1 d y)
  then show ?case by (subst (1 2) year_up.simps) simp
qed

lemma YearFromDay_bounds:
  "DayFromYear (YearFromDay d) \<le> d" "d < DayFromYear (YearFromDay d + 1)"
  using year_up_bounds [OF year_down_le, of d "1970 + d div 365"]
  by (simp_all add: YearFromDay_def)

lemma DayWithinYear_bounds:
  "0 \<le> DayWithinYear d" "DayWithinYear d < DaysInYear (YearFromDay d)"
  using YearFromDay_bounds [of d] DayFromYear_step [of "YearFromDay d"]
  by (simp_all add: DayWithinYear_def)

lemma MonthFromDay_bounds: "0 \<le> MonthFromDay d" "MonthFromDay d \<le> 11"
  by (simp_all add: MonthFromDay_def Let_def)

lemma DateFromDay_bounds:
  "1 \<le> DateFromDay d" "DateFromDay d \<le> DaysInMonth (YearFromDay d) (MonthFromDay d)"
proof -
  define w where "w = DayWithinYear d"
  define lp where "lp = leap (YearFromDay d)"
  have w: "0 \<le> w" "w < (if lp then 366 else 365)"
    using DayWithinYear_bounds [of d] by (simp_all add: w_def lp_def DaysInYear_def)
  define m where "m = (if w < month_start lp 1 then 0 else if w < month_start lp 2 then 1
      else if w < month_start lp 3 then 2 else if w < month_start lp 4 then 3
      else if w < month_start lp 5 then 4 else if w < month_start lp 6 then 5
      else if w < month_start lp 7 then 6 else if w < month_start lp 8 then 7
      else if w < month_start lp 9 then 8 else if w < month_start lp 10 then 9
      else if w < month_start lp 11 then 10 else (11::int))"
  have M: "MonthFromDay d = m"
    by (simp add: MonthFromDay_def Let_def m_def w_def lp_def)
  have D: "DateFromDay d = w - month_start lp m + 1"
    by (simp add: DateFromDay_def M w_def lp_def)
  have "1 \<le> w - month_start lp m + 1 \<and>
      w - month_start lp m + 1 \<le> month_start lp (m + 1) - month_start lp m"
    using w by (cases lp) (simp_all add: m_def month_start_def)
  then show "1 \<le> DateFromDay d" "DateFromDay d \<le> DaysInMonth (YearFromDay d) (MonthFromDay d)"
    by (simp_all add: D M DaysInMonth_def lp_def)
qed

lemma DaysInMonth_le_31: "DaysInMonth y m \<le> 31"
  by (simp add: DaysInMonth_def month_start_def)

lemma MakeDay_roundtrip: "MakeDay (YearFromDay d) (MonthFromDay d) (DateFromDay d) = d"
  by (simp add: MakeDay_def DateFromDay_def DayWithinYear_def)

text \<open>
  Printing a number below 100 with two digits and a year from 1000 to 9999 with four,
  and reading the digits back.
\<close>

lemma digit_char_props:
  "is_digit (digit_char k)" "digit_val (digit_char k) = int (k mod 10)"
proof -
  define m where "m = k mod 10"
  have "m < 10" by (simp add: m_def)
  then have "m = 0 \<or> m = 1 \<or> m = 2 \<or> m = 3 \<or> m = 4 \<or> m = 5 \<or> m = 6 \<or> m = 7 \<or> m = 8 \<or> m = 9"
    by arith
  then have "is_digit (''0123456789'' ! m) \<and> digit_val (''0123456789'' ! m) = int m"
    by (elim disjE) (simp_all add: is_digit_def digit_val_def)
  then show "is_digit (digit_char k)" "digit_val (digit_char k) = int (k mod 10)"
    by (simp_all add: digit_char_def m_def)
qed

lemma int_mod_10: "int (x mod 10) = int x - 10 * int (x div 10)"
  by (simp add: zmod_int zdiv_int minus_mult_div_eq_mod)

lemma show_nat_1: "n < 10 \<Longrightarrow> show_nat n = [digit_char n]"
  by (subst show_nat.simps) simp

lemma show_nat_2: "n < 100 \<Longrightarrow> padStart2 (show_nat n) = [digit_char (n div 10), digit_char n]"
proof (cases "n < 10")
  case True
  then show ?thesis by (simp add: show_nat_1 padStart2_def digit_char_def)
next
  case False
  assume "n < 100"
  then have "n div 10 < 10" by simp
  with False show ?thesis
    by (subst show_nat.simps) (simp add: show_nat_1 padStart2_def)
qed

lemma show_nat_4:
  assumes "1000 \<le> n" "n < 10000"
  shows "show_nat n =
    [digit_char (n div 1000), digit_char (n div 100), digit_char (n div 10), digit_char n]"
proof -
  have a: "n div 10 div 10 = n div 100" "n div 100 div 10 = n div 1000"
    by (simp_all add: div_mult2_eq)
  have b: "\<not> n < 10" "\<not> n div 10 < 10" "\<not> n div 100 < 10" "n div 1000 < 10"
    using assms by simp_all
  have "show_nat (n div 1000) = [digit_char (n div 1000)]"
    using b by (simp add: show_nat_1)
  then have "show_nat (n div 100) = [digit_char (n div 1000), digit_char (n div 100)]"
    using b a by (subst show_nat.simps) simp
  then have "show_nat (n div 10) =
      [digit_char (n div 1000), digit_char (n div 100), digit_char (n div 10)]"
    using b a by (subst show_nat.simps) simp
  then show ?thesis
    using b by (subst show_nat.simps) simp
qed

lemma digits_val_2: "n < 100 \<Longrightarrow> digits_val [digit_char (n div 10), digit_char n] = int n"
proof -
  assume "n < 100"
  then have "n div 10 mod 10 = n div 10" by simp
  then show ?thesis
    by (simp add: digits_val_def digit_char_props int_mod_10)
qed

lemma digits_val_4:
  assumes "n < 10000"
  shows "digits_val
    [digit_char (n div 1000), digit_char (n div 100), digit_char (n div 10), digit_char n] = int n"
proof -
  have a: "n div 10 div 10 = n div 100" "n div 100 div 10 = n div 1000"
    by (simp_all add: div_mult2_eq)
  have "n div 1000 mod 10 = n div 1000" using assms by simp
  then have 3: "int (n div 1000 mod 10) = int (n div 1000)" by simp
  have 2: "int (n div 100 mod 10) = int (n div 100) - 10 * int (n div 1000)"
    using int_mod_10 [of "n div 100"] a by simp
  have 1: "int (n div 10 mod 10) = int (n div 10) - 10 * int (n div 100)"
    using int_mod_10 [of "n div 10"] a by simp
  have 0: "int (n mod 10) = int n - 10 * int (n div 10)"
    by (rule int_mod_10)
  show ?thesis
    by (simp add: digits_val_def digit_char_props 0 1 2 3)
qed

text \<open>
  The canonical string of an instant in a four-digit local year: ten characters of the
  form YYYY-MM-DD, which read back as the local day number of the instant.
\<close>

lemma local_day_string_digits:
  assumes "1000 \<le> getFullYear h t" "getFullYear h t \<le> 9999"
  shows "local_day_string h t =
    [digit_char (nat (getFullYear h t) div 1000), digit_char (nat (getFullYear h t) div 100),
     digit_char (nat (getFullYear h t) div 10), digit_char (nat (getFullYear h t)), CHR ''-'',
     digit_char (nat (getMonth h t + 1) div 10), digit_char (nat (getMonth h t + 1)), CHR ''-'',
     digit_char (nat (getDate h t) div 10), digit_char (nat (getDate h t))]"
proof -
  have m: "0 \<le> getMonth h t" "getMonth h t \<le> 11"
    by (simp_all add: getMonth_def MonthFromDay_bounds)
  have d: "1 \<le> getDate h t" "getDate h t \<le> 31"
    using DateFromDay_bounds [of "Day (LocalTime h t)"]
      DaysInMonth_le_31 [of "YearFromDay (Day (LocalTime h t))" "MonthFromDay (Day (LocalTime h t))"]
    by (simp_all add: getDate_def)
  have "show_int (getFullYear h t) =
      [digit_char (nat (getFullYear h t) div 1000), digit_char (nat (getFullYear h t) div 100),
       digit_char (nat (getFullYear h t) div 10), digit_char (nat (getFullYear h t))]"
    using assms by (simp add: show_int_def show_nat_4)
  moreover have "padStart2 (show_int (getMonth h t + 1)) =
      [digit_char (nat (getMonth h t + 1) div 10), digit_char (nat (getMonth h t + 1))]"
    using m by (simp add: show_int_def show_nat_2)
  moreover have "padStart2 (show_int (getDate h t)) =
      [digit_char (nat (getDate h t) div 10), digit_char (nat (getDate h t))]"
    using d by (simp add: show_int_def show_nat_2)
  ultimately show ?thesis by (simp add: local_day_string_def)
qed

lemma local_day_string_canonical:
  assumes "1000 \<le> getFullYear h t" "getFullYear h t \<le> 9999"
  shows "canonical (local_day_string h t)"
  by (simp add: local_day_string_digits [OF assms] canonical_def digit_char_props)

lemma iso_day_local_day_string:
  assumes "1000 \<le> getFullYear h t" "getFullYear h t \<le> 9999"
  shows "iso_day (local_day_string h t) = Some (Day (LocalTime h t))"
proof -
  let ?dn = "Day (LocalTime h t)"
  have m: "0 \<le> getMonth h t" "getMonth h t \<le> 11"
    by (simp_all add: getMonth_def MonthFromDay_bounds)
  have d: "1 \<le> getDate h t" "getDate h t \<le> 31"
      "getDate h t \<le> DaysInMonth (getFullYear h t) (getMonth h t)"
    using DateFromDay_bounds [of ?dn]
      DaysInMonth_le_31 [of "YearFromDay ?dn" "MonthFromDay ?dn"]
    by (simp_all add: getDate_def getFullYear_def getMonth_def)
  have y: "digits_val [digit_char (nat (getFullYear h t) div 1000),
      digit_char (nat (getFullYear h t) div 100), digit_char (nat (getFullYear h t) div 10),
      digit_char (nat (getFullYear h t))] = getFullYear h t"
    using assms by (simp add: digits_val_4)
  have mo: "digits_val [digit_char (nat (getMonth h t + 1) div 10),
      digit_char (nat (getMonth h t + 1))] = getMonth h t + 1"
    using m by (simp add: digits_val_2)
  have da: "digits_val [digit_char (nat (getDate h t) div 10), digit_char (nat (getDate h t))] =
      getDate h t"
    using d by (simp add: digits_val_2)
  have "MakeDay (getFullYear h t) (getMonth h t) (getDate h t) = ?dn"
    by (simp add: getFullYear_def getMonth_def getDate_def MakeDay_roundtrip)
  then show ?thesis
    using m d local_day_string_canonical [OF assms]
    by (simp add: iso_day_def Let_def) (simp add: local_day_string_digits [OF assms] y mo da)
qed

text \<open>An instant lies between the first and the last millisecond of its UTC day.\<close>

lemma day_bounds:
  "MakeDate (Day t) 0 \<le> t" "t \<le> MakeDate (Day t) 86399999"
  "t < MakeDate k 0 \<longleftrightarrow> Day t < k"
proof -
  define q r where "q = t div 86400000" and "r = t mod 86400000"
  have t: "t = 86400000 * q + r" and r: "0 \<le> r" "r < 86400000"
    by (simp_all add: q_def r_def)
  have D: "Day t = q" by (simp add: Day_def msPerDay_def q_def)
  show "MakeDate (Day t) 0 \<le> t" "t \<le> MakeDate (Day t) 86399999"
    "t < MakeDate k 0 \<longleftrightarrow> Day t < k"
    unfolding D MakeDate_def msPerDay_def using t r by auto
qed

section \<open>Worked scenarios\<close>

text \<open>
  Concrete hosts, requests and stores on which the theorems below are run. The host
  \<open>host_at tz\<close> has local time \<open>tz\<close> minutes ahead of UTC, accepts no date text beyond
  the two ISO forms, multiplies exactly (the product of 50000, the amount of the
  scenarios, with 100 is exact in floating point), takes every 24-character string for
  an ObjectId and signs with
  \<open>stand_in_mac\<close> (the webhook only compares the digest with the header, so any
  function can stand for HMAC-SHA256 in a scenario).
\<close>

definition stand_in_mac :: "string \<Rightarrow> string \<Rightarrow> string" where
  "stand_in_mac k m = k @ m"

definition host_at :: "int \<Rightarrow> host" where
  "host_at tz =
     \<lparr>tz_minutes = tz, legacy_parse = (\<lambda>s. None), string_to_number = (\<lambda>s. None),
      times_100 = (\<lambda>r. r * 100), objectIdOk = (\<lambda>s. length s = 24), webhook_secret = Some ''whsec'',
      hmac_sha256_hex = stand_in_mac\<rparr>"

definition request_for :: "string \<Rightarrow> jsdate \<Rightarrow> payload" where
  "request_for who day =
     \<lparr>p_id = None, p_name = Some who, p_email = Some (who @ ''@example.org''),
      p_phone = Some ''8960306353'', p_package = Some ''Gold'', p_guests = Some 200,
      p_date = day, p_time = Some ''18:00'', p_specialRequests = None, p_status = None,
      p_isPaid = None, p_paymentStatus = None, p_paymentId = None, p_approvedAt = Absent,
      p_rejectedAt = Absent, p_paidAt = Absent\<rparr>"

text \<open>The pending booking that such a request creates, with id \<open>i\<close> and date \<open>t\<close>.\<close>

definition booked :: "string \<Rightarrow> string \<Rightarrow> instant \<Rightarrow> booking" where
  "booked i who t =
     \<lparr>oid = i, name = who, email = who @ ''@example.org'', phone = ''8960306353'',
      package = ''Gold'', guests = 200, date = t, time = ''18:00'', specialRequests = None,
      status = Pending, isPaid = False, paymentStatus = Unpaid, paymentId = None,
      approvedAt = None, rejectedAt = None, paidAt = None\<rparr>"

definition store_of :: "booking list \<Rightarrow> world" where
  "store_of bs = \<lparr>bookings = bs, dateIndex = True, adminEmail = Some ''admin@example.org''\<rparr>"

definition at_time :: "instant \<Rightarrow> string \<Rightarrow> bool \<Rightarrow> ambient" where
  "at_time t i mail =
     \<lparr>now = t, fresh_oid = i, mail_delivers = mail, gateway_link = Some ''https://rzp.io/i/abc''\<rparr>"


lemmas calendar_eval = Day_def msPerDay_def YearFromDay_def year_up.simps year_down.simps
  DayFromYear_def MonthFromDay_def DateFromDay_def DayWithinYear_def month_start_def leap_def
  DaysInMonth_def MakeDay_def MakeDate_def

lemmas text_eval = canonical_def is_digit_def digits_val_def digit_val_def show_int_def
  show_nat.simps digit_char_def padStart2_def iso_day_def iso_time_def Date_parse_def

lemmas local_eval = LocalTime_def getFullYear_def getMonth_def getDate_def
  local_day_string_def normalizeDateString_def

lemmas cast_eval = newBooking_def required_trimmed_def required_string_def trim_def
  is_space_def

lemma request_for_sel:
  "p_date (request_for who day) = day"
  "p_status (request_for who day) = None"
  "p_paymentStatus (request_for who day) = None"
  "p_rejectedAt (request_for who day) = Absent"
  by (simp_all add: request_for_def)

text \<open>
  Dates used in the scenarios: 20:00 and 21:00 UTC on 10 March 2025, which is
  01:30 and 02:30 on 11 March in a zone five and a half hours ahead of UTC.
\<close>

lemma parse_evening:
  "Date_parse (host_at tz) ''2025-03-10T20:00:00.000Z'' = Some 1741636800000"
  "Date_parse (host_at tz) ''2025-03-10T21:00:00.000Z'' = Some 1741640400000"
  by (simp_all add: host_at_def text_eval calendar_eval)

lemma parse_11_March:
  "Date_parse (host_at tz) ''2025-03-11'' = Some 1741651200000"
  "Date_parse (host_at tz) ''2025-03-11T00:00:00.000Z'' = Some 1741651200000"
  "Date_parse (host_at tz) ''2025-03-11T23:59:59.999Z'' = Some 1741737599999"
  by (simp_all add: host_at_def text_eval calendar_eval)

lemma parse_10_March:
  "Date_parse (host_at tz) ''2025-03-10'' = Some 1741564800000"
  "Date_parse (host_at tz) ''2025-03-10T00:00:00.000Z'' = Some 1741564800000"
  "Date_parse (host_at tz) ''2025-03-10T23:59:59.999Z'' = Some 1741651199999"
  by (simp_all add: host_at_def text_eval calendar_eval)

lemma local_day_330:
  "local_day_string (host_at 330) 1741636800000 = ''2025-03-11''"
  "local_day_string (host_at 330) 1741640400000 = ''2025-03-11''"
  "local_day_string (host_at 330) 1741658400000 = ''2025-03-11''"
  by (simp_all add: host_at_def local_eval text_eval calendar_eval)

lemma local_day_0:
  "local_day_string (host_at 0) 1741636800000 = ''2025-03-10''"
  "local_day_string (host_at 0) 1741564800000 = ''2025-03-10''"
  by (simp_all add: host_at_def local_eval text_eval calendar_eval)

lemma local_day_minus_300:
  "local_day_string (host_at (- 300)) 1741564800000 = ''2025-03-09''"
  "local_day_string (host_at (- 300)) 1741626000000 = ''2025-03-10''"
  by (simp_all add: host_at_def local_eval text_eval calendar_eval)

lemma not_canonical_evening:
  "\<not> canonical ''2025-03-10T20:00:00.000Z''" "\<not> canonical ''2025-03-10T21:00:00.000Z''"
  "canonical ''2025-03-10''" "canonical ''2025-03-11''"
  by (simp_all add: canonical_def is_digit_def)

lemma normalize_DateObj: "normalizeDateString h (DateObj t) = Some (local_day_string h t)"
  by (simp add: normalizeDateString_def)

lemma normalize_evening_330:
  "normalizeDateString (host_at 330) (Text ''2025-03-10T20:00:00.000Z'') = Some ''2025-03-11''"
  "normalizeDateString (host_at 330) (Text ''2025-03-10T21:00:00.000Z'') = Some ''2025-03-11''"
  by (simp_all add: normalizeDateString_def not_canonical_evening parse_evening local_day_330)

lemma newBooking_request_for:
  "Date_parse (host_at tz) day = Some t \<Longrightarrow> day \<noteq> [] \<Longrightarrow>
   newBooking (host_at tz) i (request_for ''asha'' (Text day)) = Some (booked i ''asha'' t)"
  "Date_parse (host_at tz) day = Some t \<Longrightarrow> day \<noteq> [] \<Longrightarrow>
   newBooking (host_at tz) i (request_for ''ravi'' (Text day)) = Some (booked i ''ravi'' t)"
  by (simp_all add: cast_eval request_for_def booked_def)



definition captured_event :: "string \<Rightarrow> string option \<Rightarrow> webhookRequest" where
  "captured_event text i =
     \<lparr>signature = Some (stand_in_mac ''whsec'' text), raw = text,
      event = Some ''payment.captured'',
      entity = Some \<lparr>payment_id = ''pay_29QQoUBi66xm2f'', notes_bookingId = i\<rparr>\<rparr>"

section \<open>The date normalizer is idempotent\<close>

lemma year_2025: "getFullYear (host_at 330) 1741636800000 = 2025"
  by (simp add: host_at_def local_eval calendar_eval)

text \<open>
  Claim C8. A string of the form YYYY-MM-DD is returned as it is, whatever the host's
  zone and parser (it is not parsed at all); whenever an input normalizes to such a
  string, normalizing the result again gives the same result; and every input that is
  a valid date in a four-digit local year does normalize to such a string, which
  normalizes to itself.
\<close>

theorem normalizeDateString_idempotent:
  "(canonical s \<longrightarrow> normalizeDateString h (Text s) = Some s) \<and>
   (normalizeDateString h d = Some s \<and> canonical s \<longrightarrow>
      normalizeDateString h (Text s) = normalizeDateString h d) \<and>
   (\<not> falsy d \<and> new_Date h d = Some t \<and> 1000 \<le> getFullYear h t \<and> getFullYear h t \<le> 9999 \<longrightarrow>
      (\<exists>r. normalizeDateString h d = Some r \<and> canonical r \<and>
           normalizeDateString h (Text r) = Some r))"
proof -
  have pass: "normalizeDateString h (Text s) = Some s" if "canonical s" for s
  proof -
    from that have "length s = 10" by (simp add: canonical_def)
    then have "s \<noteq> []" by auto
    with that show ?thesis by (simp add: normalizeDateString_def)
  qed
  have "\<exists>r. normalizeDateString h d = Some r \<and> canonical r \<and>
      normalizeDateString h (Text r) = Some r"
    if v: "\<not> falsy d" "new_Date h d = Some t" "1000 \<le> getFullYear h t" "getFullYear h t \<le> 9999"
  proof (cases "is_canonical_text d")
    case True
    then obtain r where "d = Text r" "canonical r" by (cases d) simp_all
    then show ?thesis using pass by simp
  next
    case False
    then have "normalizeDateString h d = Some (local_day_string h t)"
      using v(1,2) by (cases d) (simp_all add: normalizeDateString_def)
    then show ?thesis
      using local_day_string_canonical [OF v(3,4)] pass by simp
  qed
  with pass show ?thesis by simp
qed

theorem normalizeDateString_idempotent_witness:
  "canonical ''2025-03-11'' \<and>
   normalizeDateString (host_at 330) (Text ''2025-03-10T20:00:00.000Z'') = Some ''2025-03-11'' \<and>
   normalizeDateString (host_at 330) (Text ''2025-03-11'') = Some ''2025-03-11'' \<and>
   normalizeDateString (host_at 330) (Text ''2025-03-11'') =
     normalizeDateString (host_at 330) (Text ''2025-03-10T20:00:00.000Z'') \<and>
   \<not> falsy (Text ''2025-03-10T20:00:00.000Z'') \<and>
   new_Date (host_at 330) (Text ''2025-03-10T20:00:00.000Z'') = Some 1741636800000 \<and>
   1000 \<le> getFullYear (host_at 330) 1741636800000 \<and>
   getFullYear (host_at 330) 1741636800000 \<le> 9999 \<and>
   (\<exists>r. normalizeDateString (host_at 330) (Text ''2025-03-10T20:00:00.000Z'') = Some r \<and>
        canonical r \<and> normalizeDateString (host_at 330) (Text r) = Some r)"
  using normalizeDateString_idempotent
    [of "''2025-03-11''" "host_at 330" "Text ''2025-03-10T20:00:00.000Z''" 1741636800000]
  by (simp add: not_canonical_evening normalize_evening_330 parse_evening year_2025)

section \<open>The payment webhook\<close>



section \<open>Approval\<close>



lemma findById_store_of:
  "findById (host_at tz) (store_of [booked ''000000000000000000000001'' who t])
     ''000000000000000000000001'' = Found (booked ''000000000000000000000001'' who t)"
  "findById (host_at tz) (store_of [booked ''000000000000000000000001'' who t])
     ''000000000000000000000002'' = NoDocument"
  by (simp_all add: findById_def host_at_def store_of_def booked_def)






section \<open>What each handler does to the store\<close>

lemma newBooking_fields:
  assumes "newBooking h f body = Some doc"
  shows "oid doc = documentId f body"
    and "(case p_status body of None \<Rightarrow> Some Pending | Some s \<Rightarrow> castStatus s) = Some (status doc)"
    and "castDate h (p_rejectedAt body) = Some (rejectedAt doc)"
    and "castDate h (p_date body) = Some (Some (date doc))"
  using assms
  by (cases "p_id body";
      auto simp: newBooking_def documentId_def bind_eq_Some_conv split: if_splits)+

lemma submit_world:
  "fst (snd (submitBooking h a body w)) = w \<or>
   (\<exists>doc. newBooking h (fresh_oid a) body = Some doc \<and>
      fst (snd (submitBooking h a body w)) =
        w\<lparr>bookings := bookings w @
          [pre_save (now a) (p_status body \<noteq> None) (p_paymentStatus body \<noteq> None) doc]\<rparr>)"
  by (simp add: submitBooking_def createBooking_def saveError_def Let_def
      split: option.splits prod.splits)

lemma admin_world:
  "\<exists>P. fst (snd (adminBookings h a w)) = w\<lparr>bookings := filter P (bookings w)\<rparr>"
proof (cases "sweepBound h (now a)")
  case None
  then have "fst (snd (adminBookings h a w)) = w\<lparr>bookings := filter (\<lambda>x. True) (bookings w)\<rparr>"
    by (simp add: adminBookings_def listError_def)
  then show ?thesis by blast
next
  case (Some bound)
  then have "fst (snd (adminBookings h a w)) =
      w\<lparr>bookings := filter (\<lambda>b. bound \<le> date b) (bookings w)\<rparr>"
    by (simp add: adminBookings_def Let_def)
  then show ?thesis by blast
qed

lemma approve_world:
  "fst (snd (approveBooking h a i amount w)) = w \<or>
   (\<exists>b. findById h w i = Found b \<and>
      fst (snd (approveBooking h a i amount w)) =
        replaceDoc (pre_save (now a) (status b \<noteq> Approved) False (b\<lparr>status := Approved\<rparr>)) w)"
  by (simp add: approveBooking_def approveError_def Let_def split: option.splits query.splits)

lemma reject_world:
  "fst (snd (rejectBooking h a i w)) = w \<or>
   (\<exists>b. findById h w i = Found b \<and> fst (snd (rejectBooking h a i w)) = deleteOne i w)"
proof (cases "findById h w i")
  case (Found b)
  then have "oid b = i" using findById_Found_oid by blast
  with Found show ?thesis
    by (simp add: rejectBooking_def rejectError_def Let_def)
qed (simp_all add: rejectBooking_def rejectError_def)

lemma webhook_world:
  "fst (snd (razorpayWebhook h rq w)) = w \<or>
   (\<exists>b i p. findById h w i = Found b \<and>
      fst (snd (razorpayWebhook h rq w)) = replaceDoc (b\<lparr>isPaid := True, paymentId := Some p\<rparr>) w)"
  by (auto simp: razorpayWebhook_def webhookError_def findOneAndUpdate_def
      split: option.splits query.splits)





section \<open>Rejection\<close>





section \<open>No stored booking is rejected\<close>

text \<open>
  The property of the store: every booking is pending or approved and carries no
  rejected-at stamp.
\<close>

definition lifecycle_ok :: "world \<Rightarrow> bool" where
  "lifecycle_ok w = list_all (\<lambda>b. status b \<noteq> Rejected \<and> rejectedAt b = None) (bookings w)"

text \<open>A submission whose body itself names the status rejected or a rejected-at value.\<close>

fun names_rejection :: "request \<Rightarrow> bool" where
  "names_rejection (Submit a body) =
     (p_status body = Some ''rejected'' \<or> p_rejectedAt body \<noteq> Absent)"
| "names_rejection _ = False"

lemma castStatus_Rejected: "castStatus s = Some Rejected \<Longrightarrow> s = ''rejected''"
  by (simp add: castStatus_def split: if_splits)

lemma pre_save_rejectedAt:
  "status b \<noteq> Rejected \<Longrightarrow> rejectedAt (pre_save t ms mp b) = rejectedAt b"
  by (simp add: pre_save_def Let_def)

lemma replaceDoc_all:
  "list_all P (bookings w) \<Longrightarrow> P b \<Longrightarrow> list_all P (bookings (replaceDoc b w))"
  by (auto simp: replaceDoc_def list_all_iff)

lemma findById_Found_mem: "findById h w i = Found b \<Longrightarrow> b \<in> set (bookings w)"
  by (auto simp: findById_def find_Some_iff split: if_splits option.splits)

lemma after_lifecycle_ok:
  assumes "lifecycle_ok w" and "\<not> names_rejection r"
  shows "lifecycle_ok (after h r w)"
proof (cases r)
  case (Submit a body)
  from submit_world [of h a body w] show ?thesis
  proof
    assume "fst (snd (submitBooking h a body w)) = w"
    with assms Submit show ?thesis by (simp add: after_def)
  next
    assume "\<exists>doc. newBooking h (fresh_oid a) body = Some doc \<and>
      fst (snd (submitBooking h a body w)) =
        w\<lparr>bookings := bookings w @
          [pre_save (now a) (p_status body \<noteq> None) (p_paymentStatus body \<noteq> None) doc]\<rparr>"
    then obtain doc where d: "newBooking h (fresh_oid a) body = Some doc"
      and w': "after h r w = w\<lparr>bookings := bookings w @
          [pre_save (now a) (p_status body \<noteq> None) (p_paymentStatus body \<noteq> None) doc]\<rparr>"
      using Submit by (auto simp: after_def)
    have g: "p_status body \<noteq> Some ''rejected''" "p_rejectedAt body = Absent"
      using assms(2) Submit by simp_all
    have st: "status doc \<noteq> Rejected"
      using newBooking_fields(2) [OF d] g(1) castStatus_Rejected
      by (cases "p_status body") auto
    have "rejectedAt doc = None"
      using newBooking_fields(3) [OF d] g(2) by simp
    with st assms(1) show ?thesis
      unfolding w' by (simp add: lifecycle_ok_def pre_save_status pre_save_rejectedAt)
  qed
next
  case (AdminList a)
  obtain P where "after h r w = w\<lparr>bookings := filter P (bookings w)\<rparr>"
    using admin_world [of h a w] AdminList by (auto simp: after_def)
  with assms(1) show ?thesis by (simp add: lifecycle_ok_def list_all_iff)
next
  case (Approve a i amount)
  from approve_world [of h a i amount w] show ?thesis
  proof
    assume "fst (snd (approveBooking h a i amount w)) = w"
    with assms Approve show ?thesis by (simp add: after_def)
  next
    assume "\<exists>b. findById h w i = Found b \<and>
      fst (snd (approveBooking h a i amount w)) =
        replaceDoc (pre_save (now a) (status b \<noteq> Approved) False (b\<lparr>status := Approved\<rparr>)) w"
    then obtain b where b: "findById h w i = Found b"
      and w': "after h r w =
        replaceDoc (pre_save (now a) (status b \<noteq> Approved) False (b\<lparr>status := Approved\<rparr>)) w"
      using Approve by (auto simp: after_def)
    have "rejectedAt b = None"
      using findById_Found_mem [OF b] assms(1) by (simp add: lifecycle_ok_def list_all_iff)
    then show ?thesis
      unfolding w' lifecycle_ok_def using assms(1)
      by (intro replaceDoc_all) (simp_all add: lifecycle_ok_def pre_save_status pre_save_rejectedAt)
  qed
next
  case (Reject a i)
  from reject_world [of h a i w] assms(1) Reject show ?thesis
    by (auto simp: after_def deleteOne_def lifecycle_ok_def list_all_iff)
next
  case (Webhook rq)
  from webhook_world [of h rq w] show ?thesis
  proof
    assume "fst (snd (razorpayWebhook h rq w)) = w"
    with assms Webhook show ?thesis by (simp add: after_def)
  next
    assume "\<exists>b i p. findById h w i = Found b \<and>
      fst (snd (razorpayWebhook h rq w)) = replaceDoc (b\<lparr>isPaid := True, paymentId := Some p\<rparr>) w"
    then obtain b i p where b: "findById h w i = Found b"
      and w': "after h r w = replaceDoc (b\<lparr>isPaid := True, paymentId := Some p\<rparr>) w"
      using Webhook by (auto simp: after_def)
    have "status b \<noteq> Rejected \<and> rejectedAt b = None"
      using findById_Found_mem [OF b] assms(1) by (simp add: lifecycle_ok_def list_all_iff)
    then show ?thesis
      unfolding w' lifecycle_ok_def using assms(1)
      by (intro replaceDoc_all) (simp_all add: lifecycle_ok_def)
  qed
qed

text \<open>
  Claim C10, as the code has it. Rejection deletes the document, approval sets the
  status approved, the webhook and the sweep leave the status alone, and a submission
  stores the status its body names, pending by default. So from a store in which
  every booking is pending or approved and carries no rejected-at stamp, every sequence
  of requests in which no submission body names the status rejected or a rejected-at
  value leads to such a store again.
\<close>

theorem never_rejected_in_store:
  "lifecycle_ok w \<Longrightarrow> list_all (\<lambda>r. \<not> names_rejection r) rs \<Longrightarrow> lifecycle_ok (run h rs w)"
proof (induction rs arbitrary: w)
  case Nil
  then show ?case by simp
next
  case (Cons r rs)
  from Cons.prems have "lifecycle_ok (after h r w)"
    by (intro after_lifecycle_ok) simp_all
  with Cons show ?case by simp
qed

theorem never_rejected_in_store_witness:
  "lifecycle_ok (store_of []) \<and>
   list_all (\<lambda>r. \<not> names_rejection r)
     [Submit (at_time 1741000000000 ''000000000000000000000001'' True)
        (request_for ''asha'' (Text ''2025-03-10'')),
      Approve (at_time 1741000000001 [] True) ''000000000000000000000001'' (NumAmount 50000),
      Reject (at_time 1741000000002 [] True) ''000000000000000000000001''] \<and>
   lifecycle_ok (run (host_at 0)
     [Submit (at_time 1741000000000 ''000000000000000000000001'' True)
        (request_for ''asha'' (Text ''2025-03-10'')),
      Approve (at_time 1741000000001 [] True) ''000000000000000000000001'' (NumAmount 50000),
      Reject (at_time 1741000000002 [] True) ''000000000000000000000001'']
     (store_of []))"
  using never_rejected_in_store [of "store_of []"
     "[Submit (at_time 1741000000000 ''000000000000000000000001'' True)
        (request_for ''asha'' (Text ''2025-03-10'')),
      Approve (at_time 1741000000001 [] True) ''000000000000000000000001'' (NumAmount 50000),
      Reject (at_time 1741000000002 [] True) ''000000000000000000000001'']" "host_at 0"]
  by (simp add: lifecycle_ok_def store_of_def request_for_sel)

text \<open>
  A submission on 10 March 2025 whose body names the status rejected: it is answered
  201 and stored as it is, with rejected-at stamped by the pre-save hook.
\<close>

lemma normalize_10_March: "normalizeDateString h (Text ''2025-03-10'') = Some ''2025-03-10''"
  by (simp add: normalizeDateString_def not_canonical_evening)

lemma newBooking_rejected:
  "newBooking (host_at 0) i ((request_for ''asha'' (Text ''2025-03-10''))\<lparr>p_status := Some ''rejected''\<rparr>)
   = Some ((booked i ''asha'' 1741564800000)\<lparr>status := Rejected\<rparr>)"
  by (simp add: cast_eval request_for_def booked_def parse_10_March castStatus_def)

theorem rejected_by_submission:
  "submitBooking (host_at 0) (at_time 1741000000000 ''000000000000000000000001'' True)
     ((request_for ''asha'' (Text ''2025-03-10''))\<lparr>p_status := Some ''rejected''\<rparr>) (store_of []) =
   ((201, BookingCreated
       ((booked ''000000000000000000000001'' ''asha'' 1741564800000)
          \<lparr>status := Rejected, rejectedAt := Some 1741000000000\<rparr>)
       (bookedDates (host_at 0)
          (store_of [(booked ''000000000000000000000001'' ''asha'' 1741564800000)
             \<lparr>status := Rejected, rejectedAt := Some 1741000000000\<rparr>]))),
    store_of [(booked ''000000000000000000000001'' ''asha'' 1741564800000)
       \<lparr>status := Rejected, rejectedAt := Some 1741000000000\<rparr>],
    [SendMail (Some ''admin@example.org'') ''New Booking Request'']) \<and>
   \<not> lifecycle_ok
     (store_of [(booked ''000000000000000000000001'' ''asha'' 1741564800000)
        \<lparr>status := Rejected, rejectedAt := Some 1741000000000\<rparr>])"
proof -
  have sel: "p_date ((request_for ''asha'' (Text ''2025-03-10''))\<lparr>p_status := Some ''rejected''\<rparr>) =
      Text ''2025-03-10''"
    "p_status ((request_for ''asha'' (Text ''2025-03-10''))\<lparr>p_status := Some ''rejected''\<rparr>) =
      Some ''rejected''"
    "p_paymentStatus ((request_for ''asha'' (Text ''2025-03-10''))\<lparr>p_status := Some ''rejected''\<rparr>) =
      None"
    by (simp_all add: request_for_def)
  have "submitBooking (host_at 0) (at_time 1741000000000 ''000000000000000000000001'' True)
     ((request_for ''asha'' (Text ''2025-03-10''))\<lparr>p_status := Some ''rejected''\<rparr>) (store_of []) =
   ((201, BookingCreated
       ((booked ''000000000000000000000001'' ''asha'' 1741564800000)
          \<lparr>status := Rejected, rejectedAt := Some 1741000000000\<rparr>)
       (bookedDates (host_at 0)
          (store_of [(booked ''000000000000000000000001'' ''asha'' 1741564800000)
             \<lparr>status := Rejected, rejectedAt := Some 1741000000000\<rparr>]))),
    store_of [(booked ''000000000000000000000001'' ''asha'' 1741564800000)
       \<lparr>status := Rejected, rejectedAt := Some 1741000000000\<rparr>],
    [SendMail (Some ''admin@example.org'') ''New Booking Request''])"
    by (simp add: submitBooking_def createBooking_def sel normalize_10_March parse_10_March
        newBooking_rejected existingByString_def existingByRange_def Let_def)
      (simp add: store_of_def at_time_def pre_save_def duplicateKey_def booked_def)
  moreover have "\<not> lifecycle_ok
     (store_of [(booked ''000000000000000000000001'' ''asha'' 1741564800000)
        \<lparr>status := Rejected, rejectedAt := Some 1741000000000\<rparr>])"
    by (simp add: lifecycle_ok_def store_of_def)
  ultimately show ?thesis by (rule conjI)
qed

section \<open>The webhook acknowledges what it can read\<close>








section \<open>Payment confirmation\<close>

text \<open>
  What the webhook does to a booking it finds, for every host and store whose ids are
  distinct: the booking gets \<^verbatim>\<open>isPaid\<close> and the payment id and nothing else, so
  paid-at keeps the value it had, and a second delivery of the event leaves the store
  as the first one left it (the automatic \<^verbatim>\<open>updatedAt\<close> is not part of the model).
\<close>

lemma replaceDoc_distinct:
  assumes "distinct (map oid (bookings w))" and "b \<in> set (bookings w)" and "oid b' = oid b"
  shows "bookings (replaceDoc b' w) = map (\<lambda>x. if x = b then b' else x) (bookings w)"
proof -
  have "oid x = oid b \<longleftrightarrow> x = b" if "x \<in> set (bookings w)" for x
    using assms(1,2) that by (auto simp: distinct_map inj_on_def)
  then show ?thesis
    using assms(3) by (simp add: replaceDoc_def cong: map_cong)
qed

lemma webhook_marks_paid:
  assumes sec: "webhook_secret h = Some secret"
    and sig: "signature rq = Some (hmac_sha256_hex h secret (raw rq))"
    and ev: "event rq = Some ''payment.captured''"
    and en: "entity rq = Some payment" "notes_bookingId payment = Some i"
    and b: "findById h w i = Found b"
    and d: "distinct (map oid (bookings w))"
  shows "razorpayWebhook h rq w =
      ((200, StatusOk),
       w\<lparr>bookings := map (\<lambda>x. if x = b
            then b\<lparr>isPaid := True, paymentId := Some (trim (payment_id payment))\<rparr> else x)
          (bookings w)\<rparr>,
       [Log ''marked as PAID'', EmitPayment i True (name b)])"
    and "fst (snd (razorpayWebhook h rq (fst (snd (razorpayWebhook h rq w))))) =
      fst (snd (razorpayWebhook h rq w))"
proof -
  let ?b' = "b\<lparr>isPaid := True, paymentId := Some (trim (payment_id payment))\<rparr>"
  have o: "oid b = i" using findById_Found_oid [OF b] by simp
  have run: "razorpayWebhook h rq w =
      ((200, StatusOk), replaceDoc ?b' w, [Log ''marked as PAID'', EmitPayment i True (name b)])"
    using sec sig ev en b o by (simp add: razorpayWebhook_def findOneAndUpdate_def)
  have "bookings (replaceDoc ?b' w) = map (\<lambda>x. if x = b then ?b' else x) (bookings w)"
    using d findById_Found_mem [OF b] by (intro replaceDoc_distinct) simp_all
  then have w': "replaceDoc ?b' w = w\<lparr>bookings := map (\<lambda>x. if x = b then ?b' else x) (bookings w)\<rparr>"
    by (simp add: replaceDoc_def)
  show "razorpayWebhook h rq w =
      ((200, StatusOk), w\<lparr>bookings := map (\<lambda>x. if x = b then ?b' else x) (bookings w)\<rparr>,
       [Log ''marked as PAID'', EmitPayment i True (name b)])"
    using run w' by simp
  have f': "findById h (replaceDoc ?b' w) i = Found ?b'"
    using b o by (intro findById_replaceDoc [of h w i b]) simp_all
  have "razorpayWebhook h rq (replaceDoc ?b' w) =
      ((200, StatusOk), replaceDoc ?b' (replaceDoc ?b' w),
       [Log ''marked as PAID'', EmitPayment i True (name b)])"
    using sec sig ev en f' o by (simp add: razorpayWebhook_def findOneAndUpdate_def)
  moreover have "replaceDoc ?b' (replaceDoc ?b' w) = replaceDoc ?b' w"
    by (simp add: replaceDoc_def comp_def cong: if_cong)
  ultimately show "fst (snd (razorpayWebhook h rq (fst (snd (razorpayWebhook h rq w))))) =
      fst (snd (razorpayWebhook h rq w))"
    using run by simp
qed

text \<open>
  Claim C3 at a concrete input. The pending booking of asha, a validly signed
  payment-captured event with her booking id, delivered twice: after the first
  delivery the booking has \<^verbatim>\<open>isPaid\<close> and the payment id, and paid-at is still
  unset (the update goes through \<^verbatim>\<open>findOneAndUpdate\<close>, which runs no save hook, and
  it does not touch \<^verbatim>\<open>paymentStatus\<close>, the only path on which the hook stamps
  paid-at); the second delivery leaves the store as it is and broadcasts again.
\<close>

theorem webhook_paid_without_paidAt:
  "razorpayWebhook (host_at 0) (captured_event ''event 4'' (Some ''000000000000000000000001''))
     (store_of [booked ''000000000000000000000001'' ''asha'' 1741564800000]) =
   ((200, StatusOk),
    store_of [(booked ''000000000000000000000001'' ''asha'' 1741564800000)
       \<lparr>isPaid := True, paymentId := Some ''pay_29QQoUBi66xm2f''\<rparr>],
    [Log ''marked as PAID'', EmitPayment ''000000000000000000000001'' True ''asha'']) \<and>
   paidAt ((booked ''000000000000000000000001'' ''asha'' 1741564800000)
       \<lparr>isPaid := True, paymentId := Some ''pay_29QQoUBi66xm2f''\<rparr>) = None \<and>
   razorpayWebhook (host_at 0) (captured_event ''event 4'' (Some ''000000000000000000000001''))
     (store_of [(booked ''000000000000000000000001'' ''asha'' 1741564800000)
       \<lparr>isPaid := True, paymentId := Some ''pay_29QQoUBi66xm2f''\<rparr>]) =
   ((200, StatusOk),
    store_of [(booked ''000000000000000000000001'' ''asha'' 1741564800000)
       \<lparr>isPaid := True, paymentId := Some ''pay_29QQoUBi66xm2f''\<rparr>],
    [Log ''marked as PAID'', EmitPayment ''000000000000000000000001'' True ''asha''])"
  by (simp add: razorpayWebhook_def findOneAndUpdate_def findById_def captured_event_def
      host_at_def store_of_def booked_def replaceDoc_def trim_def is_space_def)

section \<open>Mail failures\<close>

text \<open>
  In a submission the mail to the administrator is sent inside its own try/catch:
  whether it is delivered changes neither the reply nor the store.
\<close>

lemma submit_ignores_mail_failure:
  "fst (submitBooking h (a\<lparr>mail_delivers := m\<rparr>) body w) = fst (submitBooking h a body w) \<and>
   fst (snd (submitBooking h (a\<lparr>mail_delivers := m\<rparr>) body w)) = fst (snd (submitBooking h a body w))"
  by (simp add: submitBooking_def createBooking_def saveError_def Let_def
      split: option.splits prod.splits)

text \<open>
  Claim C9 at a concrete input. With the mail transport failing, the approval of the
  pending booking of asha is answered 500 although the booking is stored approved and
  the link was created, and her rejection is answered 500 although the booking is
  deleted: in both handlers \<^verbatim>\<open>sendMail\<close> is awaited in the handler's outer try. The
  submission of the same booking is answered 201.
\<close>

theorem mail_failure_surfaces:
  "approveBooking (host_at 0) (at_time 1741000000000 [] False) ''000000000000000000000001''
     (NumAmount 50000) (store_of [booked ''000000000000000000000001'' ''asha'' 1741564800000]) =
   ((500, Message ''Error approving booking''),
    store_of [(booked ''000000000000000000000001'' ''asha'' 1741564800000)
       \<lparr>status := Approved, approvedAt := Some 1741000000000\<rparr>],
    [CreateLink \<lparr>paise = 5000000, customerName = ''asha'', customerEmail = ''asha@example.org'',
       customerContact = ''8960306353'', notesBookingId = ''000000000000000000000001''\<rparr>,
     SendMail (Some ''asha@example.org'') ''Booking Approved - Complete Payment'',
     Log ''Approve booking error:'']) \<and>
   rejectBooking (host_at 0) (at_time 1741000000000 [] False) ''000000000000000000000001''
     (store_of [booked ''000000000000000000000001'' ''asha'' 1741564800000]) =
   ((500, Message ''Error rejecting booking''), store_of [],
    [SendMail (Some ''asha@example.org'') ''Booking Rejected'', Log ''Reject booking error:'']) \<and>
   submitBooking (host_at 0) (at_time 1741000000000 ''000000000000000000000001'' False)
     (request_for ''asha'' (Text ''2025-03-10'')) (store_of []) =
   ((201, BookingCreated (booked ''000000000000000000000001'' ''asha'' 1741564800000)
       (bookedDates (host_at 0) (store_of [booked ''000000000000000000000001'' ''asha'' 1741564800000]))),
    store_of [booked ''000000000000000000000001'' ''asha'' 1741564800000],
    [SendMail (Some ''admin@example.org'') ''New Booking Request'',
     Log ''Failed sending booking notification email:''])"
proof (intro conjI)
  show "approveBooking (host_at 0) (at_time 1741000000000 [] False) ''000000000000000000000001''
     (NumAmount 50000) (store_of [booked ''000000000000000000000001'' ''asha'' 1741564800000]) =
   ((500, Message ''Error approving booking''),
    store_of [(booked ''000000000000000000000001'' ''asha'' 1741564800000)
       \<lparr>status := Approved, approvedAt := Some 1741000000000\<rparr>],
    [CreateLink \<lparr>paise = 5000000, customerName = ''asha'', customerEmail = ''asha@example.org'',
       customerContact = ''8960306353'', notesBookingId = ''000000000000000000000001''\<rparr>,
     SendMail (Some ''asha@example.org'') ''Booking Approved - Complete Payment'',
     Log ''Approve booking error:''])"
    by (simp add: approveBooking_def validAmount_def findById_store_of Let_def approveError_def)
      (simp add: booked_def at_time_def replaceDoc_def store_of_def pre_save_def approveError_def
        host_at_def)
  show "rejectBooking (host_at 0) (at_time 1741000000000 [] False) ''000000000000000000000001''
     (store_of [booked ''000000000000000000000001'' ''asha'' 1741564800000]) =
   ((500, Message ''Error rejecting booking''), store_of [],
    [SendMail (Some ''asha@example.org'') ''Booking Rejected'', Log ''Reject booking error:''])"
    by (simp add: rejectBooking_def findById_store_of Let_def rejectError_def)
      (simp add: booked_def at_time_def deleteOne_def store_of_def rejectError_def)
  show "submitBooking (host_at 0) (at_time 1741000000000 ''000000000000000000000001'' False)
     (request_for ''asha'' (Text ''2025-03-10'')) (store_of []) =
   ((201, BookingCreated (booked ''000000000000000000000001'' ''asha'' 1741564800000)
       (bookedDates (host_at 0) (store_of [booked ''000000000000000000000001'' ''asha'' 1741564800000]))),
    store_of [booked ''000000000000000000000001'' ''asha'' 1741564800000],
    [SendMail (Some ''admin@example.org'') ''New Booking Request'',
     Log ''Failed sending booking notification email:''])"
    by (simp add: submitBooking_def createBooking_def request_for_sel normalize_10_March
        parse_10_March newBooking_request_for existingByString_def existingByRange_def Let_def)
      (simp add: store_of_def at_time_def pre_save_def duplicateKey_def booked_def)
qed

section \<open>Admission\<close>

text \<open>
  The two enforcement points of \<^verbatim>\<open>POST /api/bookings\<close>, for every host and store.
  When one of the two look-ups finds a booking, the reply is 409 and nothing is stored;
  and when the insert hits a unique index, the reply is 409 as well and nothing is
  stored.
\<close>

lemma submit_conflict:
  assumes "normalizeDateString h (p_date body) = Some normalized"
    and "Date_parse h normalized = Some asDate"
    and "Date_parse h (normalized @ ''T00:00:00.000Z'') = Some startOfDay"
    and "Date_parse h (normalized @ ''T23:59:59.999Z'') = Some endOfDay"
    and "existingByString w asDate \<or> existingByRange w startOfDay endOfDay"
  shows "submitBooking h a body w = ((409, Message ''Selected date is already booked''), w, [])"
  using assms by (simp add: submitBooking_def)

lemma submit_duplicate_key:
  assumes "normalizeDateString h (p_date body) = Some normalized"
    and "Date_parse h normalized = Some asDate"
    and "Date_parse h (normalized @ ''T00:00:00.000Z'') = Some startOfDay"
    and "Date_parse h (normalized @ ''T23:59:59.999Z'') = Some endOfDay"
    and "\<not> existingByString w asDate" "\<not> existingByRange w startOfDay endOfDay"
    and "newBooking h (fresh_oid a) body = Some doc"
    and "duplicateKey w (pre_save (now a) (p_status body \<noteq> None) (p_paymentStatus body \<noteq> None) doc)"
  shows "submitBooking h a body w =
    ((409, Message ''Selected date is already booked (duplicate key)''), w, [])"
  using assms by (simp add: submitBooking_def createBooking_def Let_def)

text \<open>
  Dates given as YYYY-MM-DD. A day of the calendar written that way is stored as its
  UTC midnight, and the first look-up of a later submission that writes the same day
  finds it: in every zone, the later submission is answered 409.
\<close>

lemma Date_parse_day:
  assumes "iso_day n = Some day"
  shows "Date_parse h n = Some (MakeDate day 0)"
    and "Date_parse h (n @ ''T00:00:00.000Z'') = Some (MakeDate day 0)"
    and "Date_parse h (n @ ''T23:59:59.999Z'') = Some (MakeDate day 86399999)"
proof -
  have c: "canonical n"
    using assms by (simp add: iso_day_def split: if_splits)
  then have l: "length n = 10" by (simp add: canonical_def)
  show "Date_parse h n = Some (MakeDate day 0)"
    using assms l by (simp add: Date_parse_def)
  have t: "iso_time ''T00:00:00.000Z'' = Some 0" "iso_time ''T23:59:59.999Z'' = Some 86399999"
    by (simp_all add: iso_time_def is_digit_def digits_val_def digit_val_def)
  show "Date_parse h (n @ ''T00:00:00.000Z'') = Some (MakeDate day 0)"
    using assms l t by (simp add: Date_parse_def)
  show "Date_parse h (n @ ''T23:59:59.999Z'') = Some (MakeDate day 86399999)"
    using assms l t by (simp add: Date_parse_def)
qed

lemma same_day_text_conflicts:
  assumes day: "iso_day n = Some day"
    and first: "newBooking h i (body\<lparr>p_date := Text n\<rparr>) = Some doc"
    and stored: "list_ex (\<lambda>b. date b = date doc) (bookings w)"
  shows "submitBooking h a (body'\<lparr>p_date := Text n\<rparr>) w =
    ((409, Message ''Selected date is already booked''), w, [])"
proof -
  have c: "canonical n"
    using day by (simp add: iso_day_def split: if_splits)
  then have "n \<noteq> []" by (auto simp: canonical_def)
  have "castDate h (Text n) = Some (Some (date doc))"
    using newBooking_fields(4) [OF first] by simp
  then have d: "date doc = MakeDate day 0"
    using \<open>n \<noteq> []\<close> Date_parse_day(1) [OF day, of h] by simp
  have nz: "normalizeDateString h (p_date (body'\<lparr>p_date := Text n\<rparr>)) = Some n"
    using c \<open>n \<noteq> []\<close> by (simp add: normalizeDateString_def)
  have ex: "existingByString w (MakeDate day 0)"
    using stored d by (simp add: existingByString_def)
  show ?thesis
    by (rule submit_conflict [OF nz Date_parse_day [OF day] disjI1 [OF ex]])
qed

text \<open>
  Dates given in any accepted form. A stored booking in a four-digit local year whose
  instant falls on the same day in UTC as in local time is found by the range look-up
  of every later submission for its canonical day, which is answered 409. On a host
  whose local time is UTC that is every stored booking.
\<close>

lemma conflict_with_stored_day:
  assumes same: "Day (LocalTime h (date b)) = Day (date b)"
    and mem: "b \<in> set (bookings w)"
    and year: "1000 \<le> getFullYear h (date b)" "getFullYear h (date b) \<le> 9999"
    and norm: "normalizeDateString h (p_date body) = normalizeDateString h (DateObj (date b))"
  shows "submitBooking h a body w = ((409, Message ''Selected date is already booked''), w, [])"
proof -
  let ?n = "local_day_string h (date b)"
  have n: "normalizeDateString h (p_date body) = Some ?n"
    using norm by (simp add: normalize_DateObj)
  have day: "iso_day ?n = Some (Day (date b))"
    using iso_day_local_day_string [OF year] same by simp
  have "existingByRange w (MakeDate (Day (date b)) 0) (MakeDate (Day (date b)) 86399999)"
    using mem day_bounds(1,2) [of "date b"] by (auto simp: existingByRange_def list_ex_iff)
  then show ?thesis
    by (intro submit_conflict [OF n Date_parse_day [OF day]]) simp
qed

lemma conflict_at_utc:
  assumes "tz_minutes h = 0" "b \<in> set (bookings w)"
    and "1000 \<le> getFullYear h (date b)" "getFullYear h (date b) \<le> 9999"
    and "normalizeDateString h (p_date body) = normalizeDateString h (DateObj (date b))"
  shows "submitBooking h a body w = ((409, Message ''Selected date is already booked''), w, [])"
  using assms by (intro conflict_with_stored_day [of h b]) (simp_all add: LocalTime_def)

lemma booked_sel:
  "oid (booked i who t) = i" "date (booked i who t) = t" "time (booked i who t) = ''18:00''"
  "email (booked i who t) = who @ ''@example.org''" "status (booked i who t) = Pending"
  by (simp_all add: booked_def)

text \<open>
  The second enforcement point at work. On the same host a second submission names the
  very instant of a stored booking, 20:00 UTC on 10 March 2025: both look-ups miss the
  stored booking, the insert hits the unique index on the date, and the reply is 409.
\<close>

lemma duplicate_key_across_zone:
  "submitBooking (host_at 330) (at_time 1741000060000 ''000000000000000000000002'' True)
     (request_for ''ravi'' (Text ''2025-03-10T20:00:00.000Z''))
     (store_of [booked ''000000000000000000000001'' ''asha'' 1741636800000]) =
   ((409, Message ''Selected date is already booked (duplicate key)''),
    store_of [booked ''000000000000000000000001'' ''asha'' 1741636800000], [])"
  by (simp add: submitBooking_def createBooking_def request_for_sel normalize_evening_330
      parse_11_March parse_evening newBooking_request_for existingByString_def
      existingByRange_def Let_def)
    (simp add: store_of_def at_time_def pre_save_def duplicateKey_def booked_def)

text \<open>
  Claim C1 at a concrete input. On a host whose local time is five and a half hours
  ahead of UTC, two submissions give their dates as instants: 20:00 and 21:00 UTC on
  10 March 2025. The normalizer takes the local day of each, 11 March, so both are
  for the same canonical day. \<open>startOfDay\<close> and \<open>endOfDay\<close> are taken in UTC, so the
  range look-up of the second submission runs from 00:00 to 23:59:59.999 UTC on 11 March
  and misses the first booking, stored at 20:00 UTC on 10 March; the look-up by string
  compares with 00:00 UTC on 11 March and misses it too; no unique index is hit, the
  two dates being different instants. Both submissions are answered 201 and both
  bookings are stored.
\<close>

theorem double_booking_across_zone:
  "normalizeDateString (host_at 330) (Text ''2025-03-10T20:00:00.000Z'') = Some ''2025-03-11'' \<and>
   normalizeDateString (host_at 330) (Text ''2025-03-10T21:00:00.000Z'') = Some ''2025-03-11'' \<and>
   submitBooking (host_at 330) (at_time 1741000000000 ''000000000000000000000001'' True)
     (request_for ''asha'' (Text ''2025-03-10T20:00:00.000Z'')) (store_of []) =
   ((201, BookingCreated (booked ''000000000000000000000001'' ''asha'' 1741636800000)
       (bookedDates (host_at 330)
          (store_of [booked ''000000000000000000000001'' ''asha'' 1741636800000]))),
    store_of [booked ''000000000000000000000001'' ''asha'' 1741636800000],
    [SendMail (Some ''admin@example.org'') ''New Booking Request'']) \<and>
   submitBooking (host_at 330) (at_time 1741000060000 ''000000000000000000000002'' True)
     (request_for ''ravi'' (Text ''2025-03-10T21:00:00.000Z''))
     (store_of [booked ''000000000000000000000001'' ''asha'' 1741636800000]) =
   ((201, BookingCreated (booked ''000000000000000000000002'' ''ravi'' 1741640400000)
       (bookedDates (host_at 330)
          (store_of [booked ''000000000000000000000001'' ''asha'' 1741636800000,
                     booked ''000000000000000000000002'' ''ravi'' 1741640400000]))),
    store_of [booked ''000000000000000000000001'' ''asha'' 1741636800000,
              booked ''000000000000000000000002'' ''ravi'' 1741640400000],
    [SendMail (Some ''admin@example.org'') ''New Booking Request'']) \<and>
   bookedDates (host_at 330)
     (store_of [booked ''000000000000000000000001'' ''asha'' 1741636800000,
                booked ''000000000000000000000002'' ''ravi'' 1741640400000]) =
   [''2025-03-11'', ''2025-03-11'']"
proof (intro conjI)
  show "normalizeDateString (host_at 330) (Text ''2025-03-10T20:00:00.000Z'') = Some ''2025-03-11''"
    by (rule normalize_evening_330)
  show "normalizeDateString (host_at 330) (Text ''2025-03-10T21:00:00.000Z'') = Some ''2025-03-11''"
    by (rule normalize_evening_330)
  show "submitBooking (host_at 330) (at_time 1741000000000 ''000000000000000000000001'' True)
     (request_for ''asha'' (Text ''2025-03-10T20:00:00.000Z'')) (store_of []) =
   ((201, BookingCreated (booked ''000000000000000000000001'' ''asha'' 1741636800000)
       (bookedDates (host_at 330)
          (store_of [booked ''000000000000000000000001'' ''asha'' 1741636800000]))),
    store_of [booked ''000000000000000000000001'' ''asha'' 1741636800000],
    [SendMail (Some ''admin@example.org'') ''New Booking Request''])"
    by (simp add: submitBooking_def createBooking_def request_for_sel normalize_evening_330
        parse_11_March parse_evening newBooking_request_for existingByString_def
        existingByRange_def Let_def)
      (simp add: store_of_def at_time_def pre_save_def duplicateKey_def booked_def)
  show "submitBooking (host_at 330) (at_time 1741000060000 ''000000000000000000000002'' True)
     (request_for ''ravi'' (Text ''2025-03-10T21:00:00.000Z''))
     (store_of [booked ''000000000000000000000001'' ''asha'' 1741636800000]) =
   ((201, BookingCreated (booked ''000000000000000000000002'' ''ravi'' 1741640400000)
       (bookedDates (host_at 330)
          (store_of [booked ''000000000000000000000001'' ''asha'' 1741636800000,
                     booked ''000000000000000000000002'' ''ravi'' 1741640400000]))),
    store_of [booked ''000000000000000000000001'' ''asha'' 1741636800000,
              booked ''000000000000000000000002'' ''ravi'' 1741640400000],
    [SendMail (Some ''admin@example.org'') ''New Booking Request''])"
    by (simp add: submitBooking_def createBooking_def request_for_sel normalize_evening_330
        parse_11_March parse_evening newBooking_request_for existingByString_def
        existingByRange_def Let_def)
      (simp add: store_of_def at_time_def pre_save_def duplicateKey_def booked_def)
  show "bookedDates (host_at 330)
     (store_of [booked ''000000000000000000000001'' ''asha'' 1741636800000,
                booked ''000000000000000000000002'' ''ravi'' 1741640400000]) =
   [''2025-03-11'', ''2025-03-11'']"
    by (simp add: bookedDates_def store_of_def booked_sel normalize_DateObj local_day_330
        List.map_filter_simps)
qed

section \<open>The retention sweep\<close>

text \<open>
  What the sweep does, for every host and store: with the bound
  \<^verbatim>\<open>new Date(todayNormalized + "T00:00:00.000Z")\<close>, the UTC midnight of the local day
  of the request, it deletes the bookings whose date is an instant before the bound,
  keeps the others as they are, and broadcasts once exactly when it deleted one.
\<close>

lemma filter_shorter: "length (filter P xs) < length xs \<longleftrightarrow> list_ex (\<lambda>x. \<not> P x) xs"
proof (induction xs)
  case Nil
  then show ?case by simp
next
  case (Cons x xs)
  then show ?case by (auto simp: less_Suc_eq_le)
qed

lemma sweep_deletes_before_bound:
  assumes "sweepBound h (now a) = Some bound"
  shows "adminBookings h a w =
    ((200, BookingList (filter (\<lambda>b. bound \<le> date b) (bookings w))),
     w\<lparr>bookings := filter (\<lambda>b. bound \<le> date b) (bookings w)\<rparr>,
     if list_ex (\<lambda>b. date b < bound) (bookings w)
     then [Log ''past bookings removed'', Emit ''pastBookingsDeleted''] else [])"
proof -
  have "0 < length (bookings w) - length (filter (\<lambda>b. bound \<le> date b) (bookings w)) \<longleftrightarrow>
      list_ex (\<lambda>b. date b < bound) (bookings w)"
    using filter_shorter [of "\<lambda>b. bound \<le> date b" "bookings w"] by (simp add: not_le)
  with assms show ?thesis
    by (simp add: adminBookings_def Let_def)
qed

text \<open>
  For a request in a four-digit local year the bound is the first millisecond of the
  UTC day that has the number of the local day of the request: the sweep compares the
  UTC day of each booking with the local day of the request. On a host whose local
  time is UTC it deletes the bookings whose canonical day is before today's and no
  others.
\<close>

lemma sweepBound_local_day:
  assumes "1000 \<le> getFullYear h today" "getFullYear h today \<le> 9999"
  shows "sweepBound h today = Some (MakeDate (Day (LocalTime h today)) 0)"
  using Date_parse_day(2) [OF iso_day_local_day_string [OF assms], of h]
  by (simp add: sweepBound_def normalize_DateObj)

lemma sweep_by_day:
  assumes "1000 \<le> getFullYear h (now a)" "getFullYear h (now a) \<le> 9999"
  shows "adminBookings h a w =
    ((200, BookingList (filter (\<lambda>b. Day (LocalTime h (now a)) \<le> Day (date b)) (bookings w))),
     w\<lparr>bookings := filter (\<lambda>b. Day (LocalTime h (now a)) \<le> Day (date b)) (bookings w)\<rparr>,
     if list_ex (\<lambda>b. Day (date b) < Day (LocalTime h (now a))) (bookings w)
     then [Log ''past bookings removed'', Emit ''pastBookingsDeleted''] else [])"
proof -
  have "(MakeDate (Day (LocalTime h (now a))) 0 \<le> t) = (Day (LocalTime h (now a)) \<le> Day t)" for t
    using day_bounds(3) [of t "Day (LocalTime h (now a))"] by auto
  then show ?thesis
    using sweep_deletes_before_bound [OF sweepBound_local_day [OF assms], of w]
    by (simp add: day_bounds(3))
qed

lemma sweep_at_utc:
  assumes "tz_minutes h = 0" "1000 \<le> getFullYear h (now a)" "getFullYear h (now a) \<le> 9999"
  shows "adminBookings h a w =
    ((200, BookingList (filter (\<lambda>b. Day (LocalTime h (now a)) \<le> Day (LocalTime h (date b)))
        (bookings w))),
     w\<lparr>bookings := filter (\<lambda>b. Day (LocalTime h (now a)) \<le> Day (LocalTime h (date b)))
        (bookings w)\<rparr>,
     if list_ex (\<lambda>b. Day (LocalTime h (date b)) < Day (LocalTime h (now a))) (bookings w)
     then [Log ''past bookings removed'', Emit ''pastBookingsDeleted''] else [])"
proof -
  have "LocalTime h t = t" for t
    using assms(1) by (simp add: LocalTime_def)
  then show ?thesis
    using sweep_by_day [OF assms(2,3), of w] by simp
qed

lemma sweepBound_scenarios:
  "sweepBound (host_at 330) 1741658400000 = Some 1741651200000"
  "sweepBound (host_at (- 300)) 1741626000000 = Some 1741564800000"
  by (simp_all add: sweepBound_def normalize_DateObj local_day_330 local_day_minus_300
      parse_11_March parse_10_March)

text \<open>
  Claim C7 at two concrete inputs. On a host five and a half hours ahead of UTC, at
  07:30 local time on 11 March 2025, a booking stored for 20:00 UTC on 10 March, whose
  canonical day is 11 March, today: the sweep deletes it and broadcasts. On a host five
  hours behind UTC, at noon local time on 10 March 2025, the booking that a submission
  for 2025-03-10 created, stored at 00:00 UTC on 10 March, whose canonical day on that
  host is 9 March, the day before today: the sweep keeps it. The bound is the UTC
  midnight of the local day, while the canonical day of a booking is taken in local
  time.
\<close>

theorem sweep_misjudges_day:
  "normalizeDateString (host_at 330) (DateObj 1741658400000) = Some ''2025-03-11'' \<and>
   normalizeDateString (host_at 330) (DateObj 1741636800000) = Some ''2025-03-11'' \<and>
   adminBookings (host_at 330) (at_time 1741658400000 [] True)
     (store_of [booked ''000000000000000000000001'' ''asha'' 1741636800000]) =
   ((200, BookingList []), store_of [],
    [Log ''past bookings removed'', Emit ''pastBookingsDeleted'']) \<and>
   submitBooking (host_at (- 300)) (at_time 1741000000000 ''000000000000000000000001'' True)
     (request_for ''asha'' (Text ''2025-03-10'')) (store_of []) =
   ((201, BookingCreated (booked ''000000000000000000000001'' ''asha'' 1741564800000)
       (bookedDates (host_at (- 300))
          (store_of [booked ''000000000000000000000001'' ''asha'' 1741564800000]))),
    store_of [booked ''000000000000000000000001'' ''asha'' 1741564800000],
    [SendMail (Some ''admin@example.org'') ''New Booking Request'']) \<and>
   normalizeDateString (host_at (- 300)) (DateObj 1741626000000) = Some ''2025-03-10'' \<and>
   normalizeDateString (host_at (- 300)) (DateObj 1741564800000) = Some ''2025-03-09'' \<and>
   adminBookings (host_at (- 300)) (at_time 1741626000000 [] True)
     (store_of [booked ''000000000000000000000001'' ''asha'' 1741564800000]) =
   ((200, BookingList [booked ''000000000000000000000001'' ''asha'' 1741564800000]),
    store_of [booked ''000000000000000000000001'' ''asha'' 1741564800000], [])"
proof (intro conjI)
  show "adminBookings (host_at 330) (at_time 1741658400000 [] True)
     (store_of [booked ''000000000000000000000001'' ''asha'' 1741636800000]) =
   ((200, BookingList []), store_of [],
    [Log ''past bookings removed'', Emit ''pastBookingsDeleted''])"
    using sweep_deletes_before_bound [of "host_at 330" "at_time 1741658400000 [] True"
      1741651200000 "store_of [booked ''000000000000000000000001'' ''asha'' 1741636800000]"]
    by (simp add: at_time_def sweepBound_scenarios) (simp add: store_of_def booked_sel)
  show "adminBookings (host_at (- 300)) (at_time 1741626000000 [] True)
     (store_of [booked ''000000000000000000000001'' ''asha'' 1741564800000]) =
   ((200, BookingList [booked ''000000000000000000000001'' ''asha'' 1741564800000]),
    store_of [booked ''000000000000000000000001'' ''asha'' 1741564800000], [])"
    using sweep_deletes_before_bound [of "host_at (- 300)" "at_time 1741626000000 [] True"
      1741564800000 "store_of [booked ''000000000000000000000001'' ''asha'' 1741564800000]"]
    by (simp add: at_time_def sweepBound_scenarios) (simp add: store_of_def booked_sel)
  show "submitBooking (host_at (- 300)) (at_time 1741000000000 ''000000000000000000000001'' True)
     (request_for ''asha'' (Text ''2025-03-10'')) (store_of []) =
   ((201, BookingCreated (booked ''000000000000000000000001'' ''asha'' 1741564800000)
       (bookedDates (host_at (- 300))
          (store_of [booked ''000000000000000000000001'' ''asha'' 1741564800000]))),
    store_of [booked ''000000000000000000000001'' ''asha'' 1741564800000],
    [SendMail (Some ''admin@example.org'') ''New Booking Request''])"
    by (simp add: submitBooking_def createBooking_def request_for_sel normalize_10_March
        parse_10_March newBooking_request_for existingByString_def existingByRange_def Let_def)
      (simp add: store_of_def at_time_def pre_save_def duplicateKey_def booked_def)
qed (simp_all add: normalize_DateObj local_day_330 local_day_minus_300)

end
